theory Spec2Isabelle
  imports Main
begin

section \<open>Python strings\<close>

text \<open>
  Python \<open>str\<close> values are modelled as HOL strings. A \<open>char\<close> stands for one code
  point below 256, so the strings of the model are the Python strings over these
  code points. The classifications below (\<open>str.isspace\<close>, the regular expression
  class \<open>\w\<close> of a \<open>str\<close> pattern, \<open>str.lower\<close>) are Python's on these code points.
\<close>

definition LF :: char where
  "LF = CHR 0x0A"

definition CR :: char where
  "CR = CHR 0x0D"

text \<open>\<open>str.isspace\<close>: tab, line feed, vertical tab, form feed, carriage return, the
  four separators \<open>0x1C..0x1F\<close>, the space, the next-line character \<open>0x85\<close> and
  the no-break space \<open>0xA0\<close>.\<close>

definition is_space :: "char \<Rightarrow> bool" where
  "is_space c = (c \<in> set [CHR 0x09, CHR 0x0A, CHR 0x0B, CHR 0x0C, CHR 0x0D,
                            CHR 0x1C, CHR 0x1D, CHR 0x1E, CHR 0x1F, CHR 0x20,
                            CHR 0x85, CHR 0xA0])"

text \<open>\<open>s.lstrip()\<close>, \<open>s.rstrip()\<close>, \<open>s.strip()\<close> without argument.\<close>

definition lstrip :: "string \<Rightarrow> string" where
  "lstrip s = dropWhile is_space s"

definition rstrip :: "string \<Rightarrow> string" where
  "rstrip s = rev (dropWhile is_space (rev s))"

definition strip :: "string \<Rightarrow> string" where
  "strip s = rstrip (lstrip s)"

text \<open>\<open>s.rstrip(chars)\<close> and \<open>s.strip(chars)\<close>: the argument is a set of characters.\<close>

definition rstrip_chars :: "string \<Rightarrow> string \<Rightarrow> string" where
  "rstrip_chars chars s = rev (dropWhile (\<lambda>c. c \<in> set chars) (rev s))"

definition strip_chars :: "string \<Rightarrow> string \<Rightarrow> string" where
  "strip_chars chars s = rstrip_chars chars (dropWhile (\<lambda>c. c \<in> set chars) s)"

text \<open>\<open>s.replace(old, new)\<close> for a non-empty \<open>old\<close> (every use in the program has a
  literal, non-empty \<open>old\<close>): the non-overlapping occurrences, left to right.\<close>

fun str_replace :: "string \<Rightarrow> string \<Rightarrow> string \<Rightarrow> string" where
  "str_replace old new [] = []"
| "str_replace old new (c # cs) =
     (if old \<noteq> [] \<and> take (length old) (c # cs) = old
      then new @ str_replace old new (drop (length old) (c # cs))
      else c # str_replace old new cs)"

text \<open>\<open>sub in s\<close>.\<close>

fun str_contains :: "string \<Rightarrow> string \<Rightarrow> bool" where
  "str_contains sub [] = (sub = [])"
| "str_contains sub (c # cs) = (take (length sub) (c # cs) = sub \<or> str_contains sub cs)"

text \<open>\<open>s.split(sep)\<close> for a one-character separator, and \<open>sep.join(xs)\<close>.\<close>

fun split_on :: "char \<Rightarrow> string \<Rightarrow> string list" where
  "split_on sep [] = [[]]"
| "split_on sep (c # cs) =
     (if c = sep then [] # split_on sep cs
      else (case split_on sep cs of
              [] \<Rightarrow> [[c]]
            | l # ls \<Rightarrow> (c # l) # ls))"

fun join :: "string \<Rightarrow> string list \<Rightarrow> string" where
  "join sep [] = []"
| "join sep [x] = x"
| "join sep (x # y # ys) = x @ sep @ join sep (y # ys)"

text \<open>\<open>str.lower\<close>: the letters \<open>A..Z\<close>, and the upper-case letters \<open>0xC0..0xDE\<close>
  (without the multiplication sign \<open>0xD7\<close>), have a lower-case letter; every other
  character is left as it is.\<close>

definition upper_letters :: string where
  "upper_letters = ''ABCDEFGHIJKLMNOPQRSTUVWXYZ'' @
       [CHR 0xC0, CHR 0xC1, CHR 0xC2, CHR 0xC3, CHR 0xC4, CHR 0xC5, CHR 0xC6, CHR 0xC7,
        CHR 0xC8, CHR 0xC9, CHR 0xCA, CHR 0xCB, CHR 0xCC, CHR 0xCD, CHR 0xCE, CHR 0xCF,
        CHR 0xD0, CHR 0xD1, CHR 0xD2, CHR 0xD3, CHR 0xD4, CHR 0xD5, CHR 0xD6, CHR 0xD8,
        CHR 0xD9, CHR 0xDA, CHR 0xDB, CHR 0xDC, CHR 0xDD, CHR 0xDE]"

definition lower_letters :: string where
  "lower_letters = ''abcdefghijklmnopqrstuvwxyz'' @
       [CHR 0xE0, CHR 0xE1, CHR 0xE2, CHR 0xE3, CHR 0xE4, CHR 0xE5, CHR 0xE6, CHR 0xE7,
        CHR 0xE8, CHR 0xE9, CHR 0xEA, CHR 0xEB, CHR 0xEC, CHR 0xED, CHR 0xEE, CHR 0xEF,
        CHR 0xF0, CHR 0xF1, CHR 0xF2, CHR 0xF3, CHR 0xF4, CHR 0xF5, CHR 0xF6, CHR 0xF8,
        CHR 0xF9, CHR 0xFA, CHR 0xFB, CHR 0xFC, CHR 0xFD, CHR 0xFE]"

definition lower_char :: "char \<Rightarrow> char" where
  "lower_char c =
     (case map_of (zip upper_letters lower_letters) c of
        None \<Rightarrow> c
      | Some d \<Rightarrow> d)"

definition lower :: "string \<Rightarrow> string" where
  "lower s = map lower_char s"

text \<open>The truth value of an optional string: \<open>None\<close> and the empty string are falsy.
  \<open>py_or a b\<close> is \<open>a or b\<close>.\<close>

definition truthy :: "string option \<Rightarrow> bool" where
  "truthy x = (case x of None \<Rightarrow> False | Some s \<Rightarrow> s \<noteq> [])"

definition py_or :: "string option \<Rightarrow> string option \<Rightarrow> string option" where
  "py_or a b = (if truthy a then a else b)"

section \<open>The authentication helper (\<open>utils/_auth.py\<close>)\<close>

subsection \<open>\<open>_clean_token\<close>\<close>

definition clean_token :: "string option \<Rightarrow> string option" where
  "clean_token token =
     (case token of
        None \<Rightarrow> None
      | Some t \<Rightarrow> py_or (Some (strip (str_replace [LF] [] (str_replace [CR] [] t)))) None)"

subsection \<open>Exceptions\<close>

text \<open>
  A function that can raise returns \<open>exn + 'a\<close>. \<open>ConfigparserError\<close> stands for
  \<open>configparser.Error\<close> and its subclasses (the argument names the subclass);
  \<open>FileNotFoundError\<close> is the one \<open>Path.read_text\<close> raises for a missing file;
  \<open>OtherException\<close> is any exception the module has no handler for.
\<close>

datatype exn =
    ConfigparserError string
  | FileNotFoundError
  | OtherException string

subsection \<open>\<open>_get_token_from_google_colab\<close>\<close>

text \<open>
  The module globals \<open>_IS_GOOGLE_COLAB_CHECKED\<close> and \<open>_GOOGLE_COLAB_SECRET\<close>, with two
  observation fields: \<open>vault_log\<close> records the outcome of every call of
  \<open>userdata.get\<close> the function makes, \<open>warnings\<close> every warning that
  \<open>warnings.warn\<close> has issued. The lock makes each call of the function atomic, so
  calls are modelled one after the other.
\<close>

datatype vault_outcome =
    Returns "string option"
  | NotebookAccessError
  | SecretNotFoundError
  | ColabError string
  | Unhandled string

datatype warning = AccessNotGranted | SecretDoesNotExist | ErrorWhileFetching string

record colab_globals =
  IS_GOOGLE_COLAB_CHECKED :: bool
  GOOGLE_COLAB_SECRET :: "string option"
  vault_log :: "vault_outcome list"
  warnings :: "warning list"

definition initial_globals :: colab_globals where
  "initial_globals =
     \<lparr>IS_GOOGLE_COLAB_CHECKED = False, GOOGLE_COLAB_SECRET = None, vault_log = [], warnings = []\<rparr>"

text \<open>
  \<open>is_google_colab()\<close> and \<open>is_colab_enterprise()\<close> come from \<open>._runtime\<close>, which is
  not part of the sources at hand: their results are parameters. What the import of
  \<open>google.colab\<close>, the call \<open>userdata.get("HF_TOKEN")\<close> and the call
  \<open>warnings.warn(...)\<close> do in one call of the function is the environment's answer
  for that call: \<open>warnings.warn\<close> issues the warning, or, under a warnings filter
  that turns warnings into errors, raises it.
\<close>

record runtime =
  is_google_colab :: bool
  is_colab_enterprise :: bool

record colab_env =
  import_ok :: bool
  userdata_get :: vault_outcome
  warn_raises :: bool

definition get_token_from_google_colab ::
    "runtime \<Rightarrow> colab_env \<Rightarrow> colab_globals \<Rightarrow> (exn + string option) \<times> colab_globals" where
  "get_token_from_google_colab rt env g =
     (if \<not> is_google_colab rt \<or> is_colab_enterprise rt then (Inr None, g)
      else if IS_GOOGLE_COLAB_CHECKED g then (Inr (GOOGLE_COLAB_SECRET g), g)
      else if \<not> import_ok env then (Inr None, g)
      else
        (let g1 = g\<lparr>vault_log := vault_log g @ [userdata_get env]\<rparr> in
         case userdata_get env of
           Returns token \<Rightarrow>
             (let g2 = g1\<lparr>GOOGLE_COLAB_SECRET := clean_token token\<rparr>;
                  g3 = g2\<lparr>IS_GOOGLE_COLAB_CHECKED := True\<rparr>
              in (Inr (GOOGLE_COLAB_SECRET g3), g3))
         | NotebookAccessError \<Rightarrow>
             if warn_raises env then (Inl (OtherException ''UserWarning''), g1)
             else
               (let g2 = g1\<lparr>warnings := warnings g1 @ [AccessNotGranted]\<rparr>;
                    g3 = g2\<lparr>GOOGLE_COLAB_SECRET := None\<rparr>;
                    g4 = g3\<lparr>IS_GOOGLE_COLAB_CHECKED := True\<rparr>
                in (Inr (GOOGLE_COLAB_SECRET g4), g4))
         | SecretNotFoundError \<Rightarrow>
             if warn_raises env then (Inl (OtherException ''UserWarning''), g1)
             else
               (let g2 = g1\<lparr>warnings := warnings g1 @ [SecretDoesNotExist]\<rparr>;
                    g3 = g2\<lparr>GOOGLE_COLAB_SECRET := None\<rparr>;
                    g4 = g3\<lparr>IS_GOOGLE_COLAB_CHECKED := True\<rparr>
                in (Inr (GOOGLE_COLAB_SECRET g4), g4))
         | ColabError e \<Rightarrow>
             if warn_raises env then (Inl (OtherException ''UserWarning''), g1)
             else
               (let g2 = g1\<lparr>warnings := warnings g1 @ [ErrorWhileFetching e]\<rparr>;
                    g3 = g2\<lparr>GOOGLE_COLAB_SECRET := None\<rparr>;
                    g4 = g3\<lparr>IS_GOOGLE_COLAB_CHECKED := True\<rparr>
                in (Inr (GOOGLE_COLAB_SECRET g4), g4))
         | Unhandled e \<Rightarrow> (Inl (OtherException e), g1)))"

text \<open>A sequence of calls in one process: the globals are threaded through, whether a
  call returns or raises.\<close>

fun colab_calls :: "runtime \<Rightarrow> colab_env list \<Rightarrow> colab_globals \<Rightarrow> colab_globals" where
  "colab_calls rt [] g = g"
| "colab_calls rt (env # envs) g = colab_calls rt envs (snd (get_token_from_google_colab rt env g))"

text \<open>Every call of the sequence returns: none raises.\<close>

fun calls_return :: "runtime \<Rightarrow> colab_env list \<Rightarrow> colab_globals \<Rightarrow> bool" where
  "calls_return rt [] g = True"
| "calls_return rt (env # envs) g =
     (case get_token_from_google_colab rt env g of
        (Inl e, g') \<Rightarrow> False
      | (Inr token, g') \<Rightarrow> calls_return rt envs g')"

subsection \<open>\<open>_get_token_from_environment\<close>, \<open>_get_token_from_file\<close>, \<open>get_token\<close>\<close>

text \<open>\<open>os.environ\<close> is a map from names to values; \<open>os.environ.get(k)\<close> is its lookup.\<close>

definition get_token_from_environment :: "(string \<rightharpoonup> string) \<Rightarrow> string option" where
  "get_token_from_environment environ =
     clean_token (py_or (environ ''HF_TOKEN'') (environ ''HUGGING_FACE_HUB_TOKEN''))"

text \<open>The argument is what \<open>Path(constants.HF_TOKEN_PATH).read_text()\<close> does: it returns
  the text of the file or raises.\<close>

definition get_token_from_file :: "exn + string \<Rightarrow> exn + string option" where
  "get_token_from_file read_text =
     (case read_text of
        Inr text \<Rightarrow> Inr (clean_token (Some text))
      | Inl FileNotFoundError \<Rightarrow> Inr None
      | Inl e \<Rightarrow> Inl e)"

text \<open>\<open>a or b or c\<close> evaluates \<open>b\<close> only when \<open>a\<close> is falsy, and \<open>c\<close> only when both
  are; an exception of \<open>a\<close> ends the evaluation.\<close>

definition get_token ::
    "runtime \<Rightarrow> colab_env \<Rightarrow> (string \<rightharpoonup> string) \<Rightarrow> exn + string \<Rightarrow> colab_globals
       \<Rightarrow> (exn + string option) \<times> colab_globals" where
  "get_token rt env environ read_text g =
     (case get_token_from_google_colab rt env g of
        (Inl e, g') \<Rightarrow> (Inl e, g')
      | (Inr a, g') \<Rightarrow>
          if truthy a then (Inr a, g')
          else (let b = get_token_from_environment environ in
                if truthy b then (Inr b, g') else (get_token_from_file read_text, g')))"

text \<open>
  The resolution order as the specification words it: four candidates (the vault, the
  primary variable, the alias variable, the token file), each normalised by
  \<open>_clean_token\<close>, and the first one that is not absent is the result.
\<close>

fun first_present :: "string option list \<Rightarrow> string option" where
  "first_present [] = None"
| "first_present (None # xs) = first_present xs"
| "first_present (Some t # xs) = Some t"

definition spec_get_token ::
    "string option \<Rightarrow> (string \<rightharpoonup> string) \<Rightarrow> string option \<Rightarrow> string option" where
  "spec_get_token vault environ file_text =
     first_present [clean_token vault, clean_token (environ ''HF_TOKEN''),
                    clean_token (environ ''HUGGING_FACE_HUB_TOKEN''), clean_token file_text]"

section \<open>Python dictionaries\<close>

text \<open>
  A \<open>dict\<close> keeps its keys in insertion order: it is a list of pairs with distinct
  keys. \<open>d[k] = v\<close> replaces the value of a key that is present, in place, and appends
  a key that is new.
\<close>

type_synonym ('k, 'v) dict = "('k \<times> 'v) list"

fun dict_set :: "('k, 'v) dict \<Rightarrow> 'k \<Rightarrow> 'v \<Rightarrow> ('k, 'v) dict" where
  "dict_set [] k v = [(k, v)]"
| "dict_set ((k', v') # d) k v =
     (if k' = k then (k', v) # d else (k', v') # dict_set d k v)"

definition dict_keys :: "('k, 'v) dict \<Rightarrow> 'k list" where
  "dict_keys d = map fst d"

subsection \<open>\<open>_get_profiles\<close>\<close>

text \<open>
  \<open>configparser\<close> is the standard library's. The argument \<open>config_read\<close> is what
  \<open>config.read(profiles_path)\<close> does: it raises, or it leaves a configuration, given
  as its sections in order, each with what \<open>config.get(section, "hf_token")\<close> does
  (a value or an exception). The first assignment \<open>profiles = {}\<close> under
  \<open>if not profiles_path.exists()\<close> is overwritten on every path that follows, so
  \<open>exists\<close> does not influence the result.
\<close>

fun profiles_comprehension ::
    "(string \<times> (exn + string)) list \<Rightarrow> (string, string) dict \<Rightarrow> exn + (string, string) dict" where
  "profiles_comprehension [] d = Inr d"
| "profiles_comprehension ((profile, Inr token) # rest) d =
     profiles_comprehension rest (dict_set d profile token)"
| "profiles_comprehension ((profile, Inl e) # rest) d = Inl e"

definition get_profiles ::
    "bool \<Rightarrow> exn + (string \<times> (exn + string)) list
       \<Rightarrow> (exn + (string, string) dict) \<times> string list" where
  "get_profiles exists config_read =
     (case (case config_read of
              Inl e \<Rightarrow> Inl e
            | Inr sections \<Rightarrow> profiles_comprehension sections []) of
        Inr profiles \<Rightarrow> (Inr profiles, [])
      | Inl (ConfigparserError e) \<Rightarrow> (Inr [], [''Error parsing profiles file: '' @ e])
      | Inl e \<Rightarrow> (Inl e, []))"

section \<open>The generator (\<open>utils/generate_task_parameters.py\<close>)\<close>

subsection \<open>The syntax tree\<close>

text \<open>
  The nodes of the \<open>libcst\<close> tree the program looks at. An expression is a name, a
  simple string (kept as the literal's source text, quotes included) or anything
  else (kept as its source text). An annotation is kept as the text
  \<open>code_for_node\<close> renders, which \<open>parse_expression\<close> parses back. A
  \<open>SimpleStatementLine\<close> and an \<open>IndentedBlock\<close> of a parsed module hold at least
  one statement: they are given as the first one and the others. Every compound
  statement other than a class or a function definition (\<open>if\<close>, \<open>for\<close>, \<open>while\<close>,
  \<open>try\<close>, \<open>with\<close>, \<open>match\<close>) is an \<open>OtherCompound\<close> with the suites it holds, in
  source order. Decorators, base classes and return annotations are not looked at
  by the program and are left out.
\<close>

datatype expr =
    Name string
  | SimpleString string
  | OtherExpr string

datatype small_stmt =
    AnnAssign expr string
  | Expr expr
  | Import "string list"
  | ImportFrom "string option" "string list"
  | OtherSmallStatement string

record param =
  param_name :: string
  annotation :: "string option"
  default :: "string option"

text \<open>
  A sequence field of a node holds a tuple when the parser has built the node, or
  \<open>libcst\<close>'s visit of a tree, which builds every node it returns anew; it holds
  what the program passes when \<open>with_changes\<close> builds the node. The program
  replaces one sequence field that it later adds to another, \<open>kwonly_params\<close> of
  \<open>Parameters\<close>, and it passes a list: that field is a tuple or a list, every other
  sequence a tuple. \<open>tuple_add xs ys\<close> is \<open>xs + ys\<close> for a tuple \<open>xs\<close>: Python
  raises \<open>TypeError\<close> when \<open>ys\<close> is a list.
\<close>

datatype generator_exn = TypeError

datatype 'a pyseq = PyTuple "'a list" | PyList "'a list"

fun elements :: "'a pyseq \<Rightarrow> 'a list" where
  "elements (PyTuple xs) = xs"
| "elements (PyList xs) = xs"

fun tuple_add :: "'a list \<Rightarrow> 'a pyseq \<Rightarrow> generator_exn + 'a list" where
  "tuple_add xs (PyTuple ys) = Inr (xs @ ys)"
| "tuple_add xs (PyList ys) = Inl TypeError"

record parameters =
  params :: "param list"
  kwonly_params :: "param pyseq"
  posonly_params :: "param list"
  star_arg :: "param option"
  star_kwarg :: "param option"

datatype stmt =
    SimpleStatementLine small_stmt "small_stmt list"
  | ClassDef string suite
  | FunctionDef string parameters suite
  | OtherCompound string "suite list"
and suite =
    IndentedBlock stmt "stmt list"
  | SimpleStatementSuite small_stmt "small_stmt list"

type_synonym module = "stmt list"

text \<open>\<open>module.visit(visitor)\<close> for a \<open>CSTVisitor\<close> calls the visitor's \<open>visit_\<close>
  methods on the nodes in pre-order. These are the statements of a tree in that
  order.\<close>

fun nodes_stmt :: "stmt \<Rightarrow> stmt list"
  and nodes_stmts :: "stmt list \<Rightarrow> stmt list"
  and nodes_suite :: "suite \<Rightarrow> stmt list"
  and nodes_suites :: "suite list \<Rightarrow> stmt list" where
  "nodes_stmt (SimpleStatementLine s ss) = [SimpleStatementLine s ss]"
| "nodes_stmt (ClassDef name body) = ClassDef name body # nodes_suite body"
| "nodes_stmt (FunctionDef name ps body) = FunctionDef name ps body # nodes_suite body"
| "nodes_stmt (OtherCompound kind bodies) = OtherCompound kind bodies # nodes_suites bodies"
| "nodes_stmts [] = []"
| "nodes_stmts (t # ts) = nodes_stmt t @ nodes_stmts ts"
| "nodes_suite (IndentedBlock t ts) = nodes_stmt t @ nodes_stmts ts"
| "nodes_suite (SimpleStatementSuite s ss) = []"
| "nodes_suites [] = []"
| "nodes_suites (b # bs) = nodes_suite b @ nodes_suites bs"

text \<open>\<open>body.body\<close> of a suite, as far as its elements are statements.\<close>

fun body_statements :: "suite \<Rightarrow> stmt list" where
  "body_statements (IndentedBlock t ts) = t # ts"
| "body_statements (SimpleStatementSuite s ss) = []"

subsection \<open>\<open>DataclassFieldCollector\<close>\<close>

text \<open>
  The value of a field in the \<open>parameters\<close> dictionary. \<open>evaluated_value\<close> of a
  simple string is \<open>libcst\<close>'s; it is the parameter \<open>ev\<close>, from the literal's source
  text to the string it denotes. The literals are taken to denote text: a bytes
  literal, whose \<open>evaluated_value\<close> is not a \<open>str\<close>, is outside the model.
\<close>

record param_info =
  type :: string
  docstring :: string

fun first_docstring :: "(string \<Rightarrow> string) \<Rightarrow> small_stmt list \<Rightarrow> string" where
  "first_docstring ev [] = []"
| "first_docstring ev (Expr (SimpleString v) # rest) = strip (ev v)"
| "first_docstring ev (s # rest) = first_docstring ev rest"

definition extract_docstring :: "(string \<Rightarrow> string) \<Rightarrow> stmt list \<Rightarrow> nat \<Rightarrow> string" where
  "extract_docstring ev body field_index =
     (if field_index + 1 < length body then
        (case body ! (field_index + 1) of
           SimpleStatementLine s ss \<Rightarrow> first_docstring ev (s # ss)
         | _ \<Rightarrow> [])
      else [])"

text \<open>The inner loop \<open>for stmt in field.body\<close> and the outer loop
  \<open>for index, field in enumerate(body_statements)\<close> of \<open>visit_ClassDef\<close>.\<close>

fun collect_line ::
    "(string \<Rightarrow> string) \<Rightarrow> stmt list \<Rightarrow> nat \<Rightarrow> small_stmt list
       \<Rightarrow> (string, param_info) dict \<Rightarrow> (string, param_info) dict" where
  "collect_line ev body index [] d = d"
| "collect_line ev body index (AnnAssign (Name name) ann # rest) d =
     collect_line ev body index rest
       (dict_set d name \<lparr>type = ann, docstring = extract_docstring ev body index\<rparr>)"
| "collect_line ev body index (s # rest) d = collect_line ev body index rest d"

fun collect_fields ::
    "(string \<Rightarrow> string) \<Rightarrow> stmt list \<Rightarrow> (nat \<times> stmt) list
       \<Rightarrow> (string, param_info) dict \<Rightarrow> (string, param_info) dict" where
  "collect_fields ev body [] d = d"
| "collect_fields ev body ((index, SimpleStatementLine s ss) # rest) d =
     collect_fields ev body rest (collect_line ev body index (s # ss) d)"
| "collect_fields ev body ((index, field) # rest) d = collect_fields ev body rest d"

fun DataclassFieldCollector_visit ::
    "(string \<Rightarrow> string) \<Rightarrow> string \<Rightarrow> stmt \<Rightarrow> (string, param_info) dict
       \<Rightarrow> (string, param_info) dict" where
  "DataclassFieldCollector_visit ev dataclass_name (ClassDef name body) d =
     (if name = dataclass_name
      then collect_fields ev (body_statements body) (enumerate 0 (body_statements body)) d
      else d)"
| "DataclassFieldCollector_visit ev dataclass_name node d = d"

definition DataclassFieldCollector ::
    "(string \<Rightarrow> string) \<Rightarrow> string \<Rightarrow> module \<Rightarrow> (string, param_info) dict" where
  "DataclassFieldCollector ev dataclass_name m =
     fold (DataclassFieldCollector_visit ev dataclass_name) (nodes_stmts m) []"

subsection \<open>\<open>ArgumentsCollector\<close>\<close>

text \<open>A \<open>visit_\<close> method that raises ends the visit: \<open>visit_nodes f ns s\<close> calls \<open>f\<close>
  on the nodes in turn, from the state \<open>s\<close>, up to the first call that raises.\<close>

fun visit_nodes ::
    "(stmt \<Rightarrow> 's \<Rightarrow> generator_exn + 's) \<Rightarrow> stmt list \<Rightarrow> 's \<Rightarrow> generator_exn + 's" where
  "visit_nodes f [] s = Inr s"
| "visit_nodes f (n # ns) s =
     (case f n s of
        Inl e \<Rightarrow> Inl e
      | Inr s' \<Rightarrow> visit_nodes f ns s')"

fun ArgumentsCollector_visit ::
    "string \<Rightarrow> stmt \<Rightarrow> string set \<Rightarrow> generator_exn + string set" where
  "ArgumentsCollector_visit method_name (FunctionDef name ps body) existing_args =
     (if name = method_name
      then (case tuple_add (params ps) (kwonly_params ps) of
              Inl e \<Rightarrow> Inl e
            | Inr all_params \<Rightarrow>
                Inr (existing_args \<union>
                       set (filter (\<lambda>n. n \<noteq> ''self'') (map param_name all_params))))
      else Inr existing_args)"
| "ArgumentsCollector_visit method_name node existing_args = Inr existing_args"

definition ArgumentsCollector :: "string \<Rightarrow> module \<Rightarrow> generator_exn + string set" where
  "ArgumentsCollector method_name m =
     visit_nodes (ArgumentsCollector_visit method_name) (nodes_stmts m) {}"

subsection \<open>\<open>check_missing_parameters\<close>\<close>

text \<open>The comprehension \<open>{k: v for k, v in parameters.items() if k not in existing_args}\<close>
  stores the selected items, one after the other, in a new dictionary.\<close>

fun missing_comprehension ::
    "string set \<Rightarrow> (string, param_info) dict \<Rightarrow> (string, param_info) dict
       \<Rightarrow> (string, param_info) dict" where
  "missing_comprehension existing_args [] d = d"
| "missing_comprehension existing_args ((k, v) # items) d =
     missing_comprehension existing_args items
       (if k \<notin> existing_args then dict_set d k v else d)"

definition check_missing_parameters ::
    "(string \<Rightarrow> string) \<Rightarrow> module \<Rightarrow> module \<Rightarrow> string \<Rightarrow> string
       \<Rightarrow> generator_exn + (string, param_info) dict" where
  "check_missing_parameters ev inference_client_module parameters_module method_name
       parameter_type_name =
     (let parameters = DataclassFieldCollector ev parameter_type_name parameters_module
      in case ArgumentsCollector method_name inference_client_module of
           Inl e \<Rightarrow> Inl e
         | Inr existing_args \<Rightarrow> Inr (missing_comprehension existing_args parameters []))"

subsection \<open>\<open>AddParameters\<close>\<close>

text \<open>\<open>_update_parameters\<close>: the loop over \<open>missing_params.items()\<close> appends to
  \<open>new_kwonly_params\<close>, a list; \<open>existing_args\<close> is computed once, before the loop,
  from \<open>params.params + params.kwonly_params\<close>, and keeps \<open>self\<close>.\<close>

definition new_param :: "string \<Rightarrow> param_info \<Rightarrow> param" where
  "new_param name info = \<lparr>param_name = name, annotation = Some (type info), default = Some ''None''\<rparr>"

fun append_missing ::
    "string set \<Rightarrow> (string, param_info) dict \<Rightarrow> param list \<Rightarrow> param list" where
  "append_missing existing_args [] new_kwonly_params = new_kwonly_params"
| "append_missing existing_args ((name, info) # items) new_kwonly_params =
     append_missing existing_args items
       (if name \<notin> existing_args then new_kwonly_params @ [new_param name info]
        else new_kwonly_params)"

definition update_parameters ::
    "(string, param_info) dict \<Rightarrow> parameters \<Rightarrow> generator_exn + parameters" where
  "update_parameters missing_params ps =
     (let new_kwonly_params = elements (kwonly_params ps)
      in case tuple_add (params ps) (kwonly_params ps) of
           Inl e \<Rightarrow> Inl e
         | Inr all_params \<Rightarrow>
             (let existing_args = set (map param_name all_params)
              in Inr (ps\<lparr>kwonly_params :=
                            PyList (append_missing existing_args missing_params
                                      new_kwonly_params)\<rparr>)))"

text \<open>\<open>_update_docstring_content\<close>. \<open>first_index P xs d\<close> is
  \<open>next((i for i, x in enumerate(xs) if P x), d)\<close>.\<close>

definition section_headers :: "string list" where
  "section_headers = [''returns:'', ''raises:'', ''examples:'', ''example:'']"

definition first_index :: "(nat \<Rightarrow> bool) \<Rightarrow> nat list \<Rightarrow> nat option" where
  "first_index P indices = find P indices"

definition list_insert :: "nat \<Rightarrow> 'a list \<Rightarrow> 'a list \<Rightarrow> 'a list" where
  "list_insert i new xs = take i xs @ new @ drop i xs"

definition param_doc :: "string \<Rightarrow> string \<times> param_info \<Rightarrow> string" where
  "param_doc indentation item =
     (case item of (name, info) \<Rightarrow>
        (let param_type_str = rstrip_chars '']'' (str_replace ''Optional['' [] (type info));
             optional_str = (if str_contains ''Optional['' (type info) then ''*optional*'' else [])
         in indentation @ name @ '' (`'' @ param_type_str @ ''`, '' @ optional_str @ ''):''
              @ [LF] @ indentation @ ''    '' @ docstring info))"

definition update_docstring_content :: "(string, param_info) dict \<Rightarrow> string \<Rightarrow> string" where
  "update_docstring_content missing_params doc =
     (let docstring_lines = split_on LF doc;
          found = first_index (\<lambda>i. lower (strip (docstring_lines ! i)) = ''args:'')
                    [0 ..< length docstring_lines];
          (docstring_lines, args_index, insertion_index) =
            (case found of
               None \<Rightarrow>
                 (let insertion_index =
                        (case first_index
                                (\<lambda>i. lower (strip (docstring_lines ! i)) \<in> set section_headers)
                                [0 ..< length docstring_lines] of
                           None \<Rightarrow> length docstring_lines
                         | Some i \<Rightarrow> i)
                  in (list_insert insertion_index [''Args:''] docstring_lines,
                      insertion_index, insertion_index + 1))
             | Some args_index \<Rightarrow>
                 (docstring_lines, args_index,
                  (case first_index
                          (\<lambda>i. strip (docstring_lines ! i) = []
                                \<and> i + 1 < length docstring_lines
                                \<and> lower (strip (docstring_lines ! (i + 1))) \<in> set section_headers)
                          [args_index + 1 ..< length docstring_lines] of
                     None \<Rightarrow> length docstring_lines
                   | Some i \<Rightarrow> i)));
          indentation =
            replicate (length (docstring_lines ! args_index)
                         - length (lstrip (docstring_lines ! args_index))) CHR '' ''
              @ ''    '';
          param_docs = map (param_doc indentation) missing_params
      in join [LF] (list_insert insertion_index param_docs docstring_lines))"

text \<open>\<open>_update_docstring\<close>: the new first line holds the new string alone.\<close>

fun update_docstring ::
    "(string \<Rightarrow> string) \<Rightarrow> (string, param_info) dict \<Rightarrow> suite \<Rightarrow> suite" where
  "update_docstring ev missing_params
       (IndentedBlock (SimpleStatementLine (Expr (SimpleString v)) others) rest) =
     IndentedBlock
       (SimpleStatementLine
          (Expr (SimpleString
             (''\"\"\"'' @ update_docstring_content missing_params (ev v) @ ''\"\"\"''))) [])
       rest"
| "update_docstring ev missing_params body = body"

text \<open>\<open>leave_FunctionDef\<close> is called with the node as it was and with the node whose
  children have been transformed; \<open>_update_parameters\<close> runs before
  \<open>_update_docstring\<close>.\<close>

fun leave_FunctionDef ::
    "(string \<Rightarrow> string) \<Rightarrow> string \<Rightarrow> (string, param_info) dict \<Rightarrow> stmt \<Rightarrow> stmt
       \<Rightarrow> generator_exn + stmt" where
  "leave_FunctionDef ev method_name missing_params (FunctionDef oname ops obody)
       (FunctionDef name ps body) =
     (if oname = method_name
      then (case update_parameters missing_params ps of
              Inl e \<Rightarrow> Inl e
            | Inr new_params \<Rightarrow>
                Inr (FunctionDef name new_params (update_docstring ev missing_params body)))
      else Inr (FunctionDef name ps body))"
| "leave_FunctionDef ev method_name missing_params original_node updated_node = Inr updated_node"

text \<open>
  \<open>module.visit(AddParameters(method_name, missing_params))\<close>: the children of a
  node are transformed before \<open>leave_FunctionDef\<close> sees it, and an exception ends
  the visit. The updated node is built anew by \<open>libcst\<close>: its \<open>Parameters\<close> hold the
  parameters in tuples (\<open>as_tuples_parameters\<close>).
\<close>

definition as_tuples_parameters :: "parameters \<Rightarrow> parameters" where
  "as_tuples_parameters ps = ps\<lparr>kwonly_params := PyTuple (elements (kwonly_params ps))\<rparr>"

fun AddParameters_stmt ::
      "(string \<Rightarrow> string) \<Rightarrow> string \<Rightarrow> (string, param_info) dict \<Rightarrow> stmt
         \<Rightarrow> generator_exn + stmt"
  and AddParameters_stmts ::
      "(string \<Rightarrow> string) \<Rightarrow> string \<Rightarrow> (string, param_info) dict \<Rightarrow> stmt list
         \<Rightarrow> generator_exn + stmt list"
  and AddParameters_suite ::
      "(string \<Rightarrow> string) \<Rightarrow> string \<Rightarrow> (string, param_info) dict \<Rightarrow> suite
         \<Rightarrow> generator_exn + suite"
  and AddParameters_suites ::
      "(string \<Rightarrow> string) \<Rightarrow> string \<Rightarrow> (string, param_info) dict \<Rightarrow> suite list
         \<Rightarrow> generator_exn + suite list"
  where
  "AddParameters_stmt ev mn mp (SimpleStatementLine s ss) = Inr (SimpleStatementLine s ss)"
| "AddParameters_stmt ev mn mp (ClassDef name body) =
     (case AddParameters_suite ev mn mp body of
        Inl e \<Rightarrow> Inl e
      | Inr body' \<Rightarrow> Inr (ClassDef name body'))"
| "AddParameters_stmt ev mn mp (FunctionDef name ps body) =
     (case AddParameters_suite ev mn mp body of
        Inl e \<Rightarrow> Inl e
      | Inr body' \<Rightarrow>
          leave_FunctionDef ev mn mp (FunctionDef name ps body)
            (FunctionDef name (as_tuples_parameters ps) body'))"
| "AddParameters_stmt ev mn mp (OtherCompound kind bodies) =
     (case AddParameters_suites ev mn mp bodies of
        Inl e \<Rightarrow> Inl e
      | Inr bodies' \<Rightarrow> Inr (OtherCompound kind bodies'))"
| "AddParameters_stmts ev mn mp [] = Inr []"
| "AddParameters_stmts ev mn mp (t # ts) =
     (case AddParameters_stmt ev mn mp t of
        Inl e \<Rightarrow> Inl e
      | Inr t' \<Rightarrow>
          (case AddParameters_stmts ev mn mp ts of
             Inl e \<Rightarrow> Inl e
           | Inr ts' \<Rightarrow> Inr (t' # ts')))"
| "AddParameters_suite ev mn mp (IndentedBlock t ts) =
     (case AddParameters_stmt ev mn mp t of
        Inl e \<Rightarrow> Inl e
      | Inr t' \<Rightarrow>
          (case AddParameters_stmts ev mn mp ts of
             Inl e \<Rightarrow> Inl e
           | Inr ts' \<Rightarrow> Inr (IndentedBlock t' ts')))"
| "AddParameters_suite ev mn mp (SimpleStatementSuite s ss) = Inr (SimpleStatementSuite s ss)"
| "AddParameters_suites ev mn mp [] = Inr []"
| "AddParameters_suites ev mn mp (b # bs) =
     (case AddParameters_suite ev mn mp b of
        Inl e \<Rightarrow> Inl e
      | Inr b' \<Rightarrow>
          (case AddParameters_suites ev mn mp bs of
             Inl e \<Rightarrow> Inl e
           | Inr bs' \<Rightarrow> Inr (b' # bs')))"

text \<open>The flag \<open>found_method\<close> after the visit: some function definition of the tree
  has the name.\<close>

fun is_FunctionDef_named :: "string \<Rightarrow> stmt \<Rightarrow> bool" where
  "is_FunctionDef_named method_name (FunctionDef name ps body) = (name = method_name)"
| "is_FunctionDef_named method_name node = False"

definition found_method :: "string \<Rightarrow> module \<Rightarrow> bool" where
  "found_method method_name m = list_ex (is_FunctionDef_named method_name) (nodes_stmts m)"

text \<open>
  The rewritten module is written out (\<open>modified_module.code\<close>) and parsed again by
  the next run (\<open>cst.parse_module\<close>). The parser builds every sequence as a tuple;
  the nodes it builds are taken to be those of the tree written out.
\<close>

fun as_tuples_stmt :: "stmt \<Rightarrow> stmt"
  and as_tuples_stmts :: "stmt list \<Rightarrow> stmt list"
  and as_tuples_suite :: "suite \<Rightarrow> suite"
  and as_tuples_suites :: "suite list \<Rightarrow> suite list" where
  "as_tuples_stmt (SimpleStatementLine s ss) = SimpleStatementLine s ss"
| "as_tuples_stmt (ClassDef name body) = ClassDef name (as_tuples_suite body)"
| "as_tuples_stmt (FunctionDef name ps body) =
     FunctionDef name (as_tuples_parameters ps) (as_tuples_suite body)"
| "as_tuples_stmt (OtherCompound kind bodies) = OtherCompound kind (as_tuples_suites bodies)"
| "as_tuples_stmts [] = []"
| "as_tuples_stmts (t # ts) = as_tuples_stmt t # as_tuples_stmts ts"
| "as_tuples_suite (IndentedBlock t ts) = IndentedBlock (as_tuples_stmt t) (as_tuples_stmts ts)"
| "as_tuples_suite (SimpleStatementSuite s ss) = SimpleStatementSuite s ss"
| "as_tuples_suites [] = []"
| "as_tuples_suites (b # bs) = as_tuples_suite b # as_tuples_suites bs"

subsection \<open>\<open>AddImports\<close>\<close>

record AddImports =
  imports_to_add :: "stmt list"
  added :: bool

text \<open>The loop of \<open>leave_Module\<close> over \<open>enumerate(updated_node.body)\<close>: it stops at the
  first statement that is not a simple statement line, or whose first small
  statement is neither \<open>Import\<close> nor \<open>ImportFrom\<close>; \<open>insertion_index\<close> starts at 0
  and keeps that value when the loop ends without a \<open>break\<close>.\<close>

fun is_import_line :: "stmt \<Rightarrow> bool" where
  "is_import_line (SimpleStatementLine (Import names) ss) = True"
| "is_import_line (SimpleStatementLine (ImportFrom m names) ss) = True"
| "is_import_line node = False"

fun insertion_loop :: "nat \<Rightarrow> (nat \<times> stmt) list \<Rightarrow> nat" where
  "insertion_loop insertion_index [] = insertion_index"
| "insertion_loop insertion_index ((idx, node) # rest) =
     (if \<not> is_import_line node then idx else insertion_loop insertion_index rest)"

definition leave_Module :: "AddImports \<Rightarrow> module \<Rightarrow> module \<Rightarrow> module \<times> AddImports" where
  "leave_Module self original_node updated_node =
     (if \<not> added self then
        (let insertion_index = insertion_loop 0 (enumerate 0 updated_node);
             new_body = take insertion_index updated_node @ imports_to_add self
                          @ drop insertion_index updated_node
         in (new_body, self\<lparr>added := True\<rparr>))
      else (updated_node, self))"

subsection \<open>\<open>_collect_type_names_from_annotation\<close>\<close>

text \<open>
  \<open>re.findall(r"\w+|'[^']+'|\"[^\"]+\"", s)\<close>: at each position the alternatives are
  tried in order; a match is consumed, and where none matches the scan moves one
  character on. \<open>\w\<close> matches the underscore and the alphanumeric characters: the
  ASCII letters and digits, and among the code points from 128 to 255 the letters,
  the superscript digits and the fractions.
\<close>

definition word_characters :: string where
  "word_characters =
     ''abcdefghijklmnopqrstuvwxyzABCDEFGHIJKLMNOPQRSTUVWXYZ0123456789_'' @
       [CHR 0xAA, CHR 0xB2, CHR 0xB3, CHR 0xB5, CHR 0xB9, CHR 0xBA, CHR 0xBC, CHR 0xBD,
        CHR 0xBE, CHR 0xC0, CHR 0xC1, CHR 0xC2, CHR 0xC3, CHR 0xC4, CHR 0xC5, CHR 0xC6,
        CHR 0xC7, CHR 0xC8, CHR 0xC9, CHR 0xCA, CHR 0xCB, CHR 0xCC, CHR 0xCD, CHR 0xCE,
        CHR 0xCF, CHR 0xD0, CHR 0xD1, CHR 0xD2, CHR 0xD3, CHR 0xD4, CHR 0xD5, CHR 0xD6,
        CHR 0xD8, CHR 0xD9, CHR 0xDA, CHR 0xDB, CHR 0xDC, CHR 0xDD, CHR 0xDE, CHR 0xDF,
        CHR 0xE0, CHR 0xE1, CHR 0xE2, CHR 0xE3, CHR 0xE4, CHR 0xE5, CHR 0xE6, CHR 0xE7,
        CHR 0xE8, CHR 0xE9, CHR 0xEA, CHR 0xEB, CHR 0xEC, CHR 0xED, CHR 0xEE, CHR 0xEF,
        CHR 0xF0, CHR 0xF1, CHR 0xF2, CHR 0xF3, CHR 0xF4, CHR 0xF5, CHR 0xF6, CHR 0xF8,
        CHR 0xF9, CHR 0xFA, CHR 0xFB, CHR 0xFC, CHR 0xFD, CHR 0xFE, CHR 0xFF]"

definition is_word :: "char \<Rightarrow> bool" where
  "is_word c = (c \<in> set word_characters)"

definition is_quote :: "char \<Rightarrow> bool" where
  "is_quote c = (c = CHR 0x27 \<or> c = CHR 0x22)"

function findall_types :: "string \<Rightarrow> string list" where
  "findall_types [] = []"
| "findall_types (c # cs) =
     (if is_word c
      then (c # takeWhile is_word cs) # findall_types (dropWhile is_word cs)
      else if is_quote c \<and> takeWhile (\<lambda>x. x \<noteq> c) cs \<noteq> [] \<and> dropWhile (\<lambda>x. x \<noteq> c) cs \<noteq> []
      then (c # takeWhile (\<lambda>x. x \<noteq> c) cs @ [c])
             # findall_types (tl (dropWhile (\<lambda>x. x \<noteq> c) cs))
      else findall_types cs)"
  by pat_completeness auto
termination
  by (relation "measure length")
     (auto simp: le_imp_less_Suc length_dropWhile_le intro: le_less_trans [OF diff_le_self])

text \<open>
  \<open>builtin_types\<close> is \<open>{d for d in dir(builtins) if isinstance(getattr(builtins, d), type)}\<close>:
  it depends on the interpreter, and is a parameter of the function. The constant
  \<open>python_builtin_types\<close> is that set for CPython 3.8.
\<close>

definition collect_type_names_from_annotation :: "string set \<Rightarrow> string \<Rightarrow> string set" where
  "collect_type_names_from_annotation builtin_types annotation_str =
     (let type_string = str_replace '' '' [] annotation_str;
          types = findall_types type_string
      in set (filter (\<lambda>t. t \<notin> builtin_types) (map (strip_chars [CHR 0x22, CHR 0x27]) types)))"

definition python_builtin_types :: "string set" where
  "python_builtin_types = set
     [''ArithmeticError'', ''AssertionError'', ''AttributeError'', ''BaseException'',
      ''BlockingIOError'', ''BrokenPipeError'', ''BufferError'', ''BytesWarning'',
      ''ChildProcessError'', ''ConnectionAbortedError'', ''ConnectionError'',
      ''ConnectionRefusedError'', ''ConnectionResetError'', ''DeprecationWarning'',
      ''EOFError'', ''EnvironmentError'', ''Exception'', ''FileExistsError'',
      ''FileNotFoundError'', ''FloatingPointError'', ''FutureWarning'', ''GeneratorExit'',
      ''IOError'', ''ImportError'', ''ImportWarning'', ''IndentationError'', ''IndexError'',
      ''InterruptedError'', ''IsADirectoryError'', ''KeyError'', ''KeyboardInterrupt'',
      ''LookupError'', ''MemoryError'', ''ModuleNotFoundError'', ''NameError'',
      ''NotADirectoryError'', ''NotImplementedError'', ''OSError'', ''OverflowError'',
      ''PendingDeprecationWarning'', ''PermissionError'', ''ProcessLookupError'',
      ''RecursionError'', ''ReferenceError'', ''ResourceWarning'', ''RuntimeError'',
      ''RuntimeWarning'', ''StopAsyncIteration'', ''StopIteration'', ''SyntaxError'',
      ''SyntaxWarning'', ''SystemError'', ''SystemExit'', ''TabError'', ''TimeoutError'',
      ''TypeError'', ''UnboundLocalError'', ''UnicodeDecodeError'', ''UnicodeEncodeError'',
      ''UnicodeError'', ''UnicodeTranslateError'', ''UnicodeWarning'', ''UserWarning'',
      ''ValueError'', ''Warning'', ''ZeroDivisionError'', ''__loader__'', ''bool'',
      ''bytearray'', ''bytes'', ''classmethod'', ''complex'', ''dict'', ''enumerate'',
      ''filter'', ''float'', ''frozenset'', ''int'', ''list'', ''map'', ''memoryview'',
      ''object'', ''property'', ''range'', ''reversed'', ''set'', ''slice'',
      ''staticmethod'', ''str'', ''super'', ''tuple'', ''type'', ''zip'']"

section \<open>Notions the properties are stated with\<close>

text \<open>
  The fields a declaration declares, in the order of the source: for the class
  definitions named \<open>dataclass_name\<close>, in the order of the visit, the annotated
  names of the body's statement lines with their annotation and description.
\<close>

fun line_fields ::
    "(string \<Rightarrow> string) \<Rightarrow> stmt list \<Rightarrow> nat \<Rightarrow> small_stmt list \<Rightarrow> (string \<times> param_info) list" where
  "line_fields ev body index [] = []"
| "line_fields ev body index (AnnAssign (Name name) ann # rest) =
     (name, \<lparr>type = ann, docstring = extract_docstring ev body index\<rparr>)
       # line_fields ev body index rest"
| "line_fields ev body index (s # rest) = line_fields ev body index rest"

fun body_fields ::
    "(string \<Rightarrow> string) \<Rightarrow> stmt list \<Rightarrow> (nat \<times> stmt) list \<Rightarrow> (string \<times> param_info) list" where
  "body_fields ev body [] = []"
| "body_fields ev body ((index, SimpleStatementLine s ss) # rest) =
     line_fields ev body index (s # ss) @ body_fields ev body rest"
| "body_fields ev body ((index, field) # rest) = body_fields ev body rest"

fun node_fields :: "(string \<Rightarrow> string) \<Rightarrow> string \<Rightarrow> stmt \<Rightarrow> (string \<times> param_info) list" where
  "node_fields ev dataclass_name (ClassDef name body) =
     (if name = dataclass_name
      then body_fields ev (body_statements body) (enumerate 0 (body_statements body))
      else [])"
| "node_fields ev dataclass_name node = []"

definition declared_fields ::
    "(string \<Rightarrow> string) \<Rightarrow> string \<Rightarrow> module \<Rightarrow> (string \<times> param_info) list" where
  "declared_fields ev dataclass_name m = concat (map (node_fields ev dataclass_name) (nodes_stmts m))"

text \<open>The names of the positional and keyword-only parameters, \<open>self\<close> apart, of a
  function definition named \<open>method_name\<close>: what the definition contributes to the
  existing arguments.\<close>

fun node_args :: "string \<Rightarrow> stmt \<Rightarrow> string set" where
  "node_args method_name (FunctionDef name ps body) =
     (if name = method_name
      then {n \<in> param_name ` set (params ps @ elements (kwonly_params ps)). n \<noteq> ''self''}
      else {})"
| "node_args method_name node = {}"

text \<open>A function definition named \<open>method_name\<close> whose keyword-only parameters are in
  a list; and a tree as the parser builds it, with these parameters in tuples.\<close>

fun kwonly_in_list :: "string \<Rightarrow> stmt \<Rightarrow> bool" where
  "kwonly_in_list method_name (FunctionDef name ps body) =
     (name = method_name \<and> (case kwonly_params ps of PyTuple kw \<Rightarrow> False | PyList kw \<Rightarrow> True))"
| "kwonly_in_list method_name node = False"

fun kwonly_in_tuple :: "stmt \<Rightarrow> bool" where
  "kwonly_in_tuple (FunctionDef name ps body) =
     (case kwonly_params ps of PyTuple kw \<Rightarrow> True | PyList kw \<Rightarrow> False)"
| "kwonly_in_tuple node = True"

definition parsed_module :: "module \<Rightarrow> bool" where
  "parsed_module m = list_all kwonly_in_tuple (nodes_stmts m)"

text \<open>A body begins with a docstring, as \<open>_update_docstring\<close> tests it: its first
  statement is a simple statement line whose first small statement is an expression
  that is a simple string.\<close>

fun begins_with_docstring :: "suite \<Rightarrow> bool" where
  "begins_with_docstring (IndentedBlock (SimpleStatementLine (Expr (SimpleString v)) others) rest)
     = True"
| "begins_with_docstring body = False"

section \<open>Properties of the authentication helper\<close>

subsection \<open>Strings\<close>

lemma str_replace_single: "str_replace [c] [] s = filter (\<lambda>x. x \<noteq> c) s"
  by (induction s) auto

lemma set_strip_subset: "set (strip s) \<subseteq> set s"
proof -
  have "set (rstrip u) \<subseteq> set u" for u
    unfolding rstrip_def using set_dropWhileD [of _ is_space "rev u"] by auto
  moreover have "set (lstrip s) \<subseteq> set s"
    unfolding lstrip_def using set_dropWhileD [of _ is_space s] by auto
  ultimately show ?thesis unfolding strip_def by blast
qed

lemma lstrip_hd: "lstrip s \<noteq> [] \<Longrightarrow> \<not> is_space (hd (lstrip s))"
  unfolding lstrip_def by (simp add: hd_dropWhile)

lemma rstrip_last: "rstrip s \<noteq> [] \<Longrightarrow> \<not> is_space (last (rstrip s))"
  unfolding rstrip_def by (simp add: last_rev hd_dropWhile)

lemma rstrip_hd: "rstrip s \<noteq> [] \<Longrightarrow> \<not> is_space (hd s) \<Longrightarrow> hd (rstrip s) = hd s"
  unfolding rstrip_def
  by (induction s rule: rev_induct) (auto simp: hd_append split: if_splits)

lemma strip_ends:
  assumes "strip s \<noteq> []"
  shows "\<not> is_space (hd (strip s)) \<and> \<not> is_space (last (strip s))"
proof -
  from assms have ne: "lstrip s \<noteq> []" unfolding strip_def rstrip_def by auto
  have "hd (strip s) = hd (lstrip s)"
    using assms lstrip_hd [OF ne] rstrip_hd unfolding strip_def by blast
  with lstrip_hd [OF ne] rstrip_last assms show ?thesis unfolding strip_def by simp
qed

lemma clean_token_Some:
  "clean_token (Some t) =
     (if strip (filter (\<lambda>c. c \<noteq> LF) (filter (\<lambda>c. c \<noteq> CR) t)) = [] then None
      else Some (strip (filter (\<lambda>c. c \<noteq> LF) (filter (\<lambda>c. c \<noteq> CR) t))))"
  by (simp add: clean_token_def py_or_def truthy_def str_replace_single)

subsection \<open>Token normalisation\<close>

text \<open>
  Claim C7. \<open>_clean_token\<close> removes carriage returns and line feeds, strips the
  surrounding whitespace, and maps \<open>None\<close> and every input that is empty after that
  to \<open>None\<close>: \<open>" abc\n"\<close> gives \<open>"abc"\<close>, \<open>"\r\n"\<close> gives \<open>None\<close>, \<open>None\<close> gives
  \<open>None\<close>. In general a result \<open>Some r\<close> is the stripped input without its carriage
  returns and line feeds; it is not empty, holds neither character, and neither
  starts nor ends with whitespace; the result is \<open>None\<close> exactly when that string
  is empty.
\<close>

theorem clean_token_normalises:
  "clean_token (Some ('' abc'' @ [LF])) = Some ''abc''
   \<and> clean_token (Some [CR, LF]) = None
   \<and> clean_token None = None
   \<and> (\<forall>t r. clean_token (Some t) = Some r \<longrightarrow>
          r = strip (filter (\<lambda>c. c \<noteq> LF) (filter (\<lambda>c. c \<noteq> CR) t))
          \<and> r \<noteq> [] \<and> CR \<notin> set r \<and> LF \<notin> set r
          \<and> \<not> is_space (hd r) \<and> \<not> is_space (last r))
   \<and> (\<forall>t. clean_token (Some t) = None \<longleftrightarrow>
          strip (filter (\<lambda>c. c \<noteq> LF) (filter (\<lambda>c. c \<noteq> CR) t)) = [])"
proof (intro conjI allI impI)
  show "clean_token (Some ('' abc'' @ [LF])) = Some ''abc''"
    by (simp add: clean_token_Some strip_def lstrip_def rstrip_def is_space_def LF_def CR_def)
  show "clean_token (Some [CR, LF]) = None"
    by (simp add: clean_token_Some strip_def lstrip_def rstrip_def)
  show "clean_token None = None"
    by (simp add: clean_token_def)
next
  fix t r
  assume a: "clean_token (Some t) = Some r"
  let ?u = "filter (\<lambda>c. c \<noteq> LF) (filter (\<lambda>c. c \<noteq> CR) t)"
  from a have r: "r = strip ?u" and ne: "strip ?u \<noteq> []"
    by (auto simp: clean_token_Some split: if_splits)
  show "r = strip ?u" by (rule r)
  show "r \<noteq> []" using r ne by simp
  have "set r \<subseteq> set ?u" unfolding r by (rule set_strip_subset)
  then show "CR \<notin> set r" and "LF \<notin> set r" by auto
  show "\<not> is_space (hd r)" and "\<not> is_space (last r)"
    using strip_ends [OF ne] r by simp_all
next
  fix t
  show "clean_token (Some t) = None \<longleftrightarrow>
          strip (filter (\<lambda>c. c \<noteq> LF) (filter (\<lambda>c. c \<noteq> CR) t)) = []"
    by (simp add: clean_token_Some)
qed

theorem clean_token_normalises_witness:
  "clean_token (Some ''  tok  '') = Some ''tok''
   \<and> CR \<notin> set ''tok'' \<and> LF \<notin> set ''tok''"
proof -
  have c: "clean_token (Some ''  tok  '') = Some ''tok''"
    by (simp add: clean_token_Some strip_def lstrip_def rstrip_def is_space_def LF_def CR_def)
  from clean_token_normalises have
    "\<forall>t r. clean_token (Some t) = Some r \<longrightarrow>
          r = strip (filter (\<lambda>c. c \<noteq> LF) (filter (\<lambda>c. c \<noteq> CR) t))
          \<and> r \<noteq> [] \<and> CR \<notin> set r \<and> LF \<notin> set r
          \<and> \<not> is_space (hd r) \<and> \<not> is_space (last r)"
    by blast
  with c show ?thesis by blast
qed

subsection \<open>Token resolution\<close>

lemma clean_token_not_empty: "clean_token t \<noteq> Some []"
  by (cases t) (auto simp: clean_token_def py_or_def truthy_def)

lemma truthy_clean_token: "truthy (clean_token t) \<longleftrightarrow> clean_token t \<noteq> None"
  using clean_token_not_empty [of t] by (cases "clean_token t") (auto simp: truthy_def)

text \<open>
  Claim C6 (amended). \<open>get_token\<close> returns the first truthy one of three candidates:
  the vault lookup, the environment token, the token file (an exception of the
  vault lookup is passed on). The environment token is one candidate, not two: it
  is the normalised value of the primary variable \<open>HF_TOKEN\<close> when that variable is
  set and not empty, and of the alias \<open>HUGGING_FACE_HUB_TOKEN\<close> otherwise; the
  choice between the two is made before normalisation. In the scenario of the
  claim (no vault, primary variable unset, alias \<open>"X"\<close>, token file \<open>"Y"\<close>) the
  result is \<open>"X"\<close>.
\<close>

theorem get_token_priority:
  "(fst (get_token_from_google_colab rt env g) = Inr a \<longrightarrow>
      fst (get_token rt env environ read_text g) =
        (if truthy a then Inr a
         else if get_token_from_environment environ \<noteq> None
              then Inr (get_token_from_environment environ)
         else get_token_from_file read_text))
   \<and> (\<forall>e. fst (get_token_from_google_colab rt env g) = Inl e \<longrightarrow>
          fst (get_token rt env environ read_text g) = Inl e)
   \<and> get_token_from_environment environ =
       clean_token (if truthy (environ ''HF_TOKEN'') then environ ''HF_TOKEN''
                    else environ ''HUGGING_FACE_HUB_TOKEN'')
   \<and> (\<not> is_google_colab rt \<and> environ ''HF_TOKEN'' = None
        \<and> environ ''HUGGING_FACE_HUB_TOKEN'' = Some ''X'' \<longrightarrow>
        fst (get_token rt env environ (Inr ''Y'') g) = Inr (Some ''X''))"
proof (intro conjI impI allI)
  assume "fst (get_token_from_google_colab rt env g) = Inr a"
  then show "fst (get_token rt env environ read_text g) =
        (if truthy a then Inr a
         else if get_token_from_environment environ \<noteq> None
              then Inr (get_token_from_environment environ)
         else get_token_from_file read_text)"
    using truthy_clean_token [of "py_or (environ ''HF_TOKEN'') (environ ''HUGGING_FACE_HUB_TOKEN'')"]
    by (cases "get_token_from_google_colab rt env g")
       (simp add: get_token_def get_token_from_environment_def Let_def)
next
  fix e
  assume "fst (get_token_from_google_colab rt env g) = Inl e"
  then show "fst (get_token rt env environ read_text g) = Inl e"
    by (cases "get_token_from_google_colab rt env g") (simp add: get_token_def)
next
  show "get_token_from_environment environ =
       clean_token (if truthy (environ ''HF_TOKEN'') then environ ''HF_TOKEN''
                    else environ ''HUGGING_FACE_HUB_TOKEN'')"
    by (simp add: get_token_from_environment_def py_or_def)
next
  assume a: "\<not> is_google_colab rt \<and> environ ''HF_TOKEN'' = None
        \<and> environ ''HUGGING_FACE_HUB_TOKEN'' = Some ''X''"
  then have v: "get_token_from_google_colab rt env g = (Inr None, g)"
    by (simp add: get_token_from_google_colab_def)
  have c: "clean_token (Some ''X'') = Some ''X''"
    by (simp add: clean_token_Some strip_def lstrip_def rstrip_def is_space_def LF_def CR_def)
  from a have "get_token_from_environment environ = Some ''X''"
    by (simp add: get_token_from_environment_def py_or_def truthy_def c)
  with v show "fst (get_token rt env environ (Inr ''Y'') g) = Inr (Some ''X'')"
    by (simp add: get_token_def truthy_def)
qed

theorem get_token_priority_witness:
  "fst (get_token \<lparr>is_google_colab = False, is_colab_enterprise = False\<rparr>
          \<lparr>import_ok = False, userdata_get = SecretNotFoundError, warn_raises = False\<rparr>
          (map_of [(''HUGGING_FACE_HUB_TOKEN'', ''X'')]) (Inr ''Y'') initial_globals)
     = Inr (Some ''X'')"
  using get_token_priority [of "\<lparr>is_google_colab = False, is_colab_enterprise = False\<rparr>"
          "\<lparr>import_ok = False, userdata_get = SecretNotFoundError, warn_raises = False\<rparr>" initial_globals None
          "map_of [(''HUGGING_FACE_HUB_TOKEN'', ''X'')]" "Inr ''Y''"]
  by simp

text \<open>
  The claim as stated, with four candidates each normalised and tried in turn, fails
  when the primary variable is set to a blank string: the alias \<open>"X"\<close> is then never
  consulted, and the token file's \<open>"Y"\<close> is returned.
\<close>

theorem get_token_priority_counterexample:
  "fst (get_token \<lparr>is_google_colab = False, is_colab_enterprise = False\<rparr>
          \<lparr>import_ok = False, userdata_get = SecretNotFoundError, warn_raises = False\<rparr>
          (map_of [(''HF_TOKEN'', '' ''), (''HUGGING_FACE_HUB_TOKEN'', ''X'')])
          (Inr ''Y'') initial_globals)
     = Inr (Some ''Y'')
   \<and> spec_get_token None
        (map_of [(''HF_TOKEN'', '' ''), (''HUGGING_FACE_HUB_TOKEN'', ''X'')]) (Some ''Y'')
     = Some ''X''"
  by (simp add: get_token_def get_token_from_google_colab_def get_token_from_environment_def
        get_token_from_file_def spec_get_token_def py_or_def truthy_def clean_token_Some
        clean_token_def strip_def lstrip_def rstrip_def is_space_def LF_def CR_def)

subsection \<open>The profile store\<close>

text \<open>
  Claim C8. When \<open>configparser\<close> rejects the profile store, that is when
  \<open>config.read\<close> raises a \<open>configparser.Error\<close>, \<open>_get_profiles\<close> returns the empty
  dictionary and raises nothing; the error is logged. The same holds when the error
  is raised by \<open>config.get\<close> for one of the sections.
\<close>

theorem get_profiles_malformed:
  "get_profiles exists (Inl (ConfigparserError e)) = (Inr [], [''Error parsing profiles file: '' @ e])
   \<and> (profiles_comprehension sections [] = Inl (ConfigparserError e) \<longrightarrow>
        get_profiles exists (Inr sections) = (Inr [], [''Error parsing profiles file: '' @ e]))"
  by (simp add: get_profiles_def)

theorem get_profiles_malformed_witness:
  "get_profiles True (Inl (ConfigparserError ''MissingSectionHeaderError''))
     = (Inr [], [''Error parsing profiles file: MissingSectionHeaderError''])
   \<and> get_profiles True
       (Inr [(''default'', Inr ''abc123''), (''work'', Inl (ConfigparserError ''NoOptionError''))])
     = (Inr [], [''Error parsing profiles file: NoOptionError''])"
  using get_profiles_malformed [of True "''MissingSectionHeaderError''" "[]"]
    get_profiles_malformed [of True "''NoOptionError''"
      "[(''default'', Inr ''abc123''), (''work'', Inl (ConfigparserError ''NoOptionError''))]"]
  by simp

subsection \<open>The vault is asked once\<close>

lemma colab_call_checked:
  "IS_GOOGLE_COLAB_CHECKED g \<Longrightarrow> snd (get_token_from_google_colab rt env g) = g"
  by (simp add: get_token_from_google_colab_def)

lemma colab_calls_checked:
  "IS_GOOGLE_COLAB_CHECKED g \<Longrightarrow> colab_calls rt envs g = g"
  by (induction envs) (simp_all add: colab_call_checked)

lemma colab_call_returns:
  assumes "\<not> IS_GOOGLE_COLAB_CHECKED g"
    and "get_token_from_google_colab rt env g = (Inr token, g')"
  shows "g' = g
         \<or> (IS_GOOGLE_COLAB_CHECKED g' \<and> vault_log g' = vault_log g @ [userdata_get env])"
  using assms
  by (cases "userdata_get env")
     (auto simp: get_token_from_google_colab_def Let_def split: if_splits)

lemma returning_calls_query_once:
  "\<not> IS_GOOGLE_COLAB_CHECKED g \<Longrightarrow> calls_return rt envs g \<Longrightarrow>
     length (vault_log (colab_calls rt envs g)) \<le> Suc (length (vault_log g))"
proof (induction envs arbitrary: g)
  case Nil
  then show ?case by simp
next
  case (Cons env envs)
  from Cons.prems(2) obtain token g' where
    call: "get_token_from_google_colab rt env g = (Inr token, g')"
    and rest: "calls_return rt envs g'"
    by (auto split: prod.splits sum.splits)
  from colab_call_returns [OF Cons.prems(1) call]
  consider (same) "g' = g"
    | (queried) "IS_GOOGLE_COLAB_CHECKED g'" "vault_log g' = vault_log g @ [userdata_get env]"
    by blast
  then show ?case
  proof cases
    case same
    then show ?thesis using Cons.IH [OF Cons.prems(1)] rest call by simp
  next
    case queried
    then show ?thesis using call by (simp add: colab_calls_checked)
  qed
qed

text \<open>
  Claim C9 (amended). Once \<open>_IS_GOOGLE_COLAB_CHECKED\<close> is set, a call leaves the
  globals as they are, the vault log included, so no later call asks the vault, and
  in a notebook the call returns the cached secret (which may be \<open>None\<close>). A call
  that has asked the vault and returns has set the flag; so from the initial
  globals, in every sequence of calls none of which raises, the vault is asked at
  most once.
\<close>

theorem vault_queried_once:
  "(IS_GOOGLE_COLAB_CHECKED g \<longrightarrow>
      snd (get_token_from_google_colab rt env g) = g
      \<and> colab_calls rt envs g = g
      \<and> (is_google_colab rt \<and> \<not> is_colab_enterprise rt \<longrightarrow>
           fst (get_token_from_google_colab rt env g) = Inr (GOOGLE_COLAB_SECRET g)))
   \<and> (get_token_from_google_colab rt env g = (Inr token, g') \<and> vault_log g' \<noteq> vault_log g \<longrightarrow>
        IS_GOOGLE_COLAB_CHECKED g')
   \<and> (calls_return rt envs initial_globals \<longrightarrow>
        length (vault_log (colab_calls rt envs initial_globals)) \<le> 1)"
proof (intro conjI impI)
  assume c: "IS_GOOGLE_COLAB_CHECKED g"
  show "snd (get_token_from_google_colab rt env g) = g" by (rule colab_call_checked [OF c])
  show "colab_calls rt envs g = g" by (rule colab_calls_checked [OF c])
  assume "is_google_colab rt \<and> \<not> is_colab_enterprise rt"
  with c show "fst (get_token_from_google_colab rt env g) = Inr (GOOGLE_COLAB_SECRET g)"
    by (simp add: get_token_from_google_colab_def)
next
  assume a: "get_token_from_google_colab rt env g = (Inr token, g') \<and> vault_log g' \<noteq> vault_log g"
  show "IS_GOOGLE_COLAB_CHECKED g'"
  proof (cases "IS_GOOGLE_COLAB_CHECKED g")
    case True
    then show ?thesis using a colab_call_checked [OF True, of rt env] by simp
  next
    case False
    from colab_call_returns [OF False] a show ?thesis by blast
  qed
next
  have n: "\<not> IS_GOOGLE_COLAB_CHECKED initial_globals" by (simp add: initial_globals_def)
  assume "calls_return rt envs initial_globals"
  from returning_calls_query_once [OF n this]
  show "length (vault_log (colab_calls rt envs initial_globals)) \<le> 1"
    by (simp add: initial_globals_def)
qed

theorem vault_queried_once_witness:
  "vault_log (colab_calls \<lparr>is_google_colab = True, is_colab_enterprise = False\<rparr>
       [\<lparr>import_ok = True, userdata_get = SecretNotFoundError, warn_raises = False\<rparr>,
        \<lparr>import_ok = True, userdata_get = Returns (Some ''t''), warn_raises = False\<rparr>]
       initial_globals)
     = [SecretNotFoundError]
   \<and> length (vault_log (colab_calls \<lparr>is_google_colab = True, is_colab_enterprise = False\<rparr>
       [\<lparr>import_ok = True, userdata_get = SecretNotFoundError, warn_raises = False\<rparr>,
        \<lparr>import_ok = True, userdata_get = Returns (Some ''t''), warn_raises = False\<rparr>]
       initial_globals)) \<le> 1"
proof -
  let ?rt = "\<lparr>is_google_colab = True, is_colab_enterprise = False\<rparr>"
  let ?envs = "[\<lparr>import_ok = True, userdata_get = SecretNotFoundError, warn_raises = False\<rparr>,
        \<lparr>import_ok = True, userdata_get = Returns (Some ''t''), warn_raises = False\<rparr>]"
  have r: "calls_return ?rt ?envs initial_globals"
    by (simp add: get_token_from_google_colab_def initial_globals_def)
  have "vault_log (colab_calls ?rt ?envs initial_globals) = [SecretNotFoundError]"
    by (simp add: get_token_from_google_colab_def initial_globals_def)
  moreover have "length (vault_log (colab_calls ?rt ?envs initial_globals)) \<le> 1"
    using vault_queried_once [of initial_globals ?rt "hd ?envs" ?envs None initial_globals] r
    by blast
  ultimately show ?thesis by blast
qed

text \<open>
  The claim as stated, at most one query in every sequence of calls, fails when a
  call raises after its query, the flag still unset: the next call asks the vault
  again. That happens when the query raises an exception other than the three
  handled ones, and when \<open>warnings.warn\<close>, in the handler of one of the three,
  raises the warning.
\<close>

theorem vault_queried_once_counterexample:
  "length (vault_log (colab_calls \<lparr>is_google_colab = True, is_colab_enterprise = False\<rparr>
       [\<lparr>import_ok = True, userdata_get = Unhandled ''KeyboardInterrupt'', warn_raises = False\<rparr>,
        \<lparr>import_ok = True, userdata_get = Returns (Some ''t''), warn_raises = False\<rparr>]
       initial_globals)) = 2
   \<and> length (vault_log (colab_calls \<lparr>is_google_colab = True, is_colab_enterprise = False\<rparr>
       [\<lparr>import_ok = True, userdata_get = SecretNotFoundError, warn_raises = True\<rparr>,
        \<lparr>import_ok = True, userdata_get = SecretNotFoundError, warn_raises = False\<rparr>]
       initial_globals)) = 2"
  by (simp add: get_token_from_google_colab_def initial_globals_def)

section \<open>Properties of the generator\<close>

subsection \<open>Type names of an annotation\<close>

lemma collect_type_names_no_builtin:
  "collect_type_names_from_annotation B ann \<inter> B = {}"
  by (auto simp: collect_type_names_from_annotation_def Let_def)

lemma collect_type_names_set:
  "collect_type_names_from_annotation B ann
       = {t \<in> strip_chars [CHR 0x22, CHR 0x27] ` set (findall_types (str_replace '' '' [] ann)).
            t \<notin> B}"
  unfolding collect_type_names_from_annotation_def Let_def set_filter set_map ..

lemma findall_Optional_str: "findall_types ''Optional[str]'' = [''Optional'', ''str'']"
  by (simp add: is_word_def word_characters_def is_quote_def)

lemma findall_Optional_ChatMessage:
  "findall_types ''Optional[ChatMessage]'' = [''Optional'', ''ChatMessage'']"
  by (simp add: is_word_def word_characters_def is_quote_def)

lemma strip_quotes_words:
  "strip_chars [CHR 0x22, CHR 0x27] ''Optional'' = ''Optional''"
  "strip_chars [CHR 0x22, CHR 0x27] ''str'' = ''str''"
  "strip_chars [CHR 0x22, CHR 0x27] ''ChatMessage'' = ''ChatMessage''"
  by (simp_all add: strip_chars_def rstrip_chars_def)

lemma no_space_1: "str_replace '' '' [] ''Optional[str]'' = ''Optional[str]''"
  by simp

lemma no_space_2: "str_replace '' '' [] ''Optional[ChatMessage]'' = ''Optional[ChatMessage]''"
  by simp

lemma collect_Optional_str:
  assumes "''str'' \<in> B" "''Optional'' \<notin> B"
  shows "collect_type_names_from_annotation B ''Optional[str]'' = {''Optional''}"
  unfolding collect_type_names_from_annotation_def Let_def no_space_1 findall_Optional_str
  using assms by (simp add: strip_quotes_words)

lemma collect_Optional_ChatMessage:
  assumes "''Optional'' \<notin> B" "''ChatMessage'' \<notin> B"
  shows "collect_type_names_from_annotation B ''Optional[ChatMessage]''
            = {''Optional'', ''ChatMessage''}"
  unfolding collect_type_names_from_annotation_def Let_def no_space_2
    findall_Optional_ChatMessage
  using assms by (simp add: strip_quotes_words)

lemma builtin_str: "''str'' \<in> python_builtin_types"
  by (simp add: python_builtin_types_def)

lemma not_builtin_Optional: "''Optional'' \<notin> python_builtin_types"
  by (simp add: python_builtin_types_def)

lemma not_builtin_ChatMessage: "''ChatMessage'' \<notin> python_builtin_types"
  by (simp add: python_builtin_types_def)

text \<open>
  Claim C3 (amended). \<open>_collect_type_names_from_annotation\<close> returns the tokens of
  the annotation (quotes stripped) that do not name a built-in type, and no name of
  a built-in type. \<open>Optional\<close> is not a built-in type, so it is returned as well:
  \<open>"Optional[str]"\<close> gives \<open>{"Optional"}\<close> and \<open>"Optional[ChatMessage]"\<close> gives
  \<open>{"Optional", "ChatMessage"}\<close>.
\<close>

theorem collect_type_names_excludes_builtins:
  "collect_type_names_from_annotation B ann \<inter> B = {}
   \<and> collect_type_names_from_annotation B ann
       = {t \<in> strip_chars [CHR 0x22, CHR 0x27] ` set (findall_types (str_replace '' '' [] ann)).
            t \<notin> B}
   \<and> (''str'' \<in> B \<and> ''Optional'' \<notin> B \<longrightarrow>
        collect_type_names_from_annotation B ''Optional[str]'' = {''Optional''})
   \<and> (''Optional'' \<notin> B \<and> ''ChatMessage'' \<notin> B \<longrightarrow>
        collect_type_names_from_annotation B ''Optional[ChatMessage]''
          = {''Optional'', ''ChatMessage''})"
  using collect_type_names_no_builtin [of B ann] collect_type_names_set [of B ann]
    collect_Optional_str [of B] collect_Optional_ChatMessage [of B]
  by blast

theorem collect_type_names_excludes_builtins_witness:
  "collect_type_names_from_annotation python_builtin_types ''Optional[str]'' = {''Optional''}
   \<and> collect_type_names_from_annotation python_builtin_types ''Optional[ChatMessage]''
        = {''Optional'', ''ChatMessage''}"
proof -
  have "(''str'' \<in> python_builtin_types \<and> ''Optional'' \<notin> python_builtin_types \<longrightarrow>
        collect_type_names_from_annotation python_builtin_types ''Optional[str]'' = {''Optional''})
   \<and> (''Optional'' \<notin> python_builtin_types \<and> ''ChatMessage'' \<notin> python_builtin_types \<longrightarrow>
        collect_type_names_from_annotation python_builtin_types ''Optional[ChatMessage]''
          = {''Optional'', ''ChatMessage''})"
    using collect_type_names_excludes_builtins [of python_builtin_types "[]"] by (elim conjE) (intro conjI)
  with builtin_str not_builtin_Optional not_builtin_ChatMessage show ?thesis
    by (elim conjE) (intro conjI; elim impE; (intro conjI)?; assumption)
qed

text \<open>
  The claim as stated fails on both of its examples: the result for
  \<open>"Optional[str]"\<close> is not empty, and the result for \<open>"Optional[ChatMessage]"\<close> is
  not \<open>{"ChatMessage"}\<close>.
\<close>

theorem collect_type_names_counterexample:
  "collect_type_names_from_annotation python_builtin_types ''Optional[str]'' \<noteq> {}
   \<and> collect_type_names_from_annotation python_builtin_types ''Optional[ChatMessage]''
        \<noteq> {''ChatMessage''}"
proof -
  have a: "collect_type_names_from_annotation python_builtin_types ''Optional[str]'' = {''Optional''}"
    by (rule collect_Optional_str [OF builtin_str not_builtin_Optional])
  have b: "collect_type_names_from_annotation python_builtin_types ''Optional[ChatMessage]''
        = {''Optional'', ''ChatMessage''}"
    by (rule collect_Optional_ChatMessage [OF not_builtin_Optional not_builtin_ChatMessage])
  have "''Optional'' \<noteq> ''ChatMessage''" by simp
  then show ?thesis unfolding a b by blast
qed

subsection \<open>Insertion of imports\<close>

lemma insertion_loop_all_imports:
  "list_all is_import_line body \<Longrightarrow> insertion_loop d (enumerate n body) = d"
  by (induction body arbitrary: n) simp_all

lemma insertion_loop_first:
  "list_all is_import_line pre \<Longrightarrow> \<not> is_import_line s \<Longrightarrow>
     insertion_loop d (enumerate n (pre @ s # post)) = n + length pre"
  by (induction pre arbitrary: n) simp_all

text \<open>
  Claim C4 (amended). The first time \<open>leave_Module\<close> runs, it places the new
  statements immediately before the first top-level statement that is not a line
  starting with an \<open>import\<close> or a \<open>from ... import\<close>; when every top-level statement
  is such a line, it places them at the beginning of the module. It sets \<open>added\<close>,
  and once \<open>added\<close> is set it returns the module as it is.
\<close>

theorem leave_Module_inserts:
  "(\<not> added self \<and> list_all is_import_line pre \<and> \<not> is_import_line s \<longrightarrow>
      leave_Module self original (pre @ s # post)
        = (pre @ imports_to_add self @ s # post, self\<lparr>added := True\<rparr>))
   \<and> (\<not> added self \<and> list_all is_import_line body \<longrightarrow>
      leave_Module self original body = (imports_to_add self @ body, self\<lparr>added := True\<rparr>))
   \<and> (added self \<longrightarrow> leave_Module self original body = (body, self))"
  by (simp add: leave_Module_def insertion_loop_all_imports insertion_loop_first)

theorem leave_Module_inserts_witness:
  "leave_Module \<lparr>imports_to_add = [SimpleStatementLine (ImportFrom (Some ''pkg.types'') [''T'']) []],
                 added = False\<rparr>
     []
     [SimpleStatementLine (Import [''os'']) [],
      ClassDef ''InferenceClient'' (SimpleStatementSuite (OtherSmallStatement ''pass'') []),
      SimpleStatementLine (Import [''re'']) []]
   = ([SimpleStatementLine (Import [''os'']) [],
       SimpleStatementLine (ImportFrom (Some ''pkg.types'') [''T'']) [],
       ClassDef ''InferenceClient'' (SimpleStatementSuite (OtherSmallStatement ''pass'') []),
       SimpleStatementLine (Import [''re'']) []],
      \<lparr>imports_to_add = [SimpleStatementLine (ImportFrom (Some ''pkg.types'') [''T'']) []],
        added = True\<rparr>)"
  using leave_Module_inserts
    [of "\<lparr>imports_to_add = [SimpleStatementLine (ImportFrom (Some ''pkg.types'') [''T'']) []],
          added = False\<rparr>"
        "[SimpleStatementLine (Import [''os'']) []]"
        "ClassDef ''InferenceClient'' (SimpleStatementSuite (OtherSmallStatement ''pass'') [])"
        "[]"
        "[SimpleStatementLine (Import [''re'']) []]"
        "[]"]
  by simp

text \<open>
  The claim as stated fails for a module of imports only: the new statements come
  first, they are not appended.
\<close>

theorem leave_Module_all_imports_counterexample:
  "fst (leave_Module \<lparr>imports_to_add = [SimpleStatementLine (Import [''b'']) []], added = False\<rparr>
          [SimpleStatementLine (Import [''a'']) []]
          [SimpleStatementLine (Import [''a'']) []])
     = [SimpleStatementLine (Import [''b'']) [], SimpleStatementLine (Import [''a'']) []]
   \<and> fst (leave_Module \<lparr>imports_to_add = [SimpleStatementLine (Import [''b'']) []], added = False\<rparr>
          [SimpleStatementLine (Import [''a'']) []]
          [SimpleStatementLine (Import [''a'']) []])
     \<noteq> [SimpleStatementLine (Import [''a'']) []] @ [SimpleStatementLine (Import [''b'']) []]"
  by (simp add: leave_Module_def)

subsection \<open>The documentation of a parameter\<close>

text \<open>
  Claim C5 (the code departs from it). The claim asks that the type shown is the
  annotation without a surrounding \<open>Optional[...]\<close>, and the annotation itself
  otherwise. \<open>rstrip("]")\<close> removes every closing bracket at the end, whether or not
  an \<open>Optional[\<close> was removed: \<open>Optional[List[str]]\<close> is shown as \<open>List[str\<close>, and
  \<open>List[str]\<close>, which has no wrapper, is shown as \<open>List[str\<close> too.
\<close>

theorem param_doc_strips_every_bracket:
  "param_doc ''    '' (''stop'', \<lparr>type = ''Optional[List[str]]'', docstring = ''Stop sequences.''\<rparr>)
     = ''    stop (`List[str`, *optional*):'' @ [LF] @ ''        Stop sequences.''
   \<and> param_doc ''    '' (''labels'', \<lparr>type = ''List[str]'', docstring = ''Labels.''\<rparr>)
     = ''    labels (`List[str`, ):'' @ [LF] @ ''        Labels.''
   \<and> update_docstring_content
        [(''stop'', \<lparr>type = ''Optional[List[str]]'', docstring = ''Stop sequences.''\<rparr>)] ''Args:''
     = ''Args:'' @ [LF] @ ''    stop (`List[str`, *optional*):'' @ [LF] @ ''        Stop sequences.''"
  by (simp add: param_doc_def rstrip_chars_def update_docstring_content_def first_index_def
        list_insert_def lower_def lower_char_def upper_letters_def lower_letters_def strip_def lstrip_def rstrip_def is_space_def
        section_headers_def Let_def LF_def)

subsection \<open>The missing parameters\<close>

lemma dict_set_keys_present:
  "k \<in> fst ` set d \<Longrightarrow> map fst (dict_set d k v) = map fst d"
  by (induction d) force+

lemma dict_set_keys_new:
  "k \<notin> fst ` set d \<Longrightarrow> map fst (dict_set d k v) = map fst d @ [k]"
  by (induction d) auto

lemma dict_set_distinct: "distinct (map fst d) \<Longrightarrow> distinct (map fst (dict_set d k v))"
  by (cases "k \<in> fst ` set d") (simp_all add: dict_set_keys_present dict_set_keys_new)

lemma dict_set_new: "k \<notin> fst ` set d \<Longrightarrow> dict_set d k v = d @ [(k, v)]"
  by (induction d) auto

lemma fold_dict_set_distinct_keys:
  "distinct (map fst d) \<Longrightarrow> distinct (map fst (fold (\<lambda>(k, v) d. dict_set d k v) xs d))"
  by (induction xs arbitrary: d) (auto simp: dict_set_distinct)

lemma fold_dict_set_fresh:
  "distinct (map fst (d @ xs)) \<Longrightarrow> fold (\<lambda>(k, v) d. dict_set d k v) xs d = d @ xs"
proof (induction xs arbitrary: d)
  case Nil
  then show ?case by simp
next
  case (Cons x xs)
  obtain k v where x: "x = (k, v)" by (cases x)
  from Cons.prems x have fresh: "k \<notin> fst ` set d" by auto
  from Cons.prems x have "distinct (map fst ((d @ [(k, v)]) @ xs))" by simp
  from Cons.IH [OF this] show ?case using x fresh by (simp add: dict_set_new)
qed

lemma missing_comprehension_fold:
  "missing_comprehension E items d
     = fold (\<lambda>(k, v) d. dict_set d k v) (filter (\<lambda>(k, v). k \<notin> E) items) d"
  by (induction E items d rule: missing_comprehension.induct) simp_all

lemma collect_line_fold:
  "collect_line ev body index ss d
     = fold (\<lambda>(k, v) d. dict_set d k v) (line_fields ev body index ss) d"
  by (induction ev body index ss d rule: collect_line.induct) simp_all

lemma collect_fields_fold:
  "collect_fields ev body xs d
     = fold (\<lambda>(k, v) d. dict_set d k v) (body_fields ev body xs) d"
  by (induction ev body xs d rule: collect_fields.induct) (simp_all add: collect_line_fold)

lemma DataclassFieldCollector_visit_fold:
  "DataclassFieldCollector_visit ev dn node d
     = fold (\<lambda>(k, v) d. dict_set d k v) (node_fields ev dn node) d"
  by (cases node) (simp_all add: collect_fields_fold)

lemma fold_visit_fields:
  "fold (DataclassFieldCollector_visit ev dn) ns d
     = fold (\<lambda>(k, v) d. dict_set d k v) (concat (map (node_fields ev dn) ns)) d"
  by (induction ns arbitrary: d) (simp_all add: DataclassFieldCollector_visit_fold)

lemma DataclassFieldCollector_fold:
  "DataclassFieldCollector ev dn m
     = fold (\<lambda>(k, v) d. dict_set d k v) (declared_fields ev dn m) []"
  by (simp add: DataclassFieldCollector_def declared_fields_def fold_visit_fields)

lemma DataclassFieldCollector_distinct:
  "distinct (map fst (DataclassFieldCollector ev dn m))"
  by (simp add: DataclassFieldCollector_fold fold_dict_set_distinct_keys)

lemma ArgumentsCollector_visit_eq:
  "ArgumentsCollector_visit mn node acc
     = (if kwonly_in_list mn node then Inl TypeError else Inr (acc \<union> node_args mn node))"
proof (cases node)
  case (FunctionDef name ps body)
  then show ?thesis by (cases "kwonly_params ps") auto
qed simp_all

lemma visit_nodes_args:
  "visit_nodes (ArgumentsCollector_visit mn) ns acc
     = (if list_ex (kwonly_in_list mn) ns then Inl TypeError
        else Inr (acc \<union> \<Union> (node_args mn ` set ns)))"
proof (induction ns arbitrary: acc)
  case Nil
  then show ?case by simp
next
  case (Cons n ns)
  show ?case
  proof (cases "kwonly_in_list mn n")
    case True
    then show ?thesis using ArgumentsCollector_visit_eq [of mn n acc] by simp
  next
    case False
    then show ?thesis
      using ArgumentsCollector_visit_eq [of mn n acc] Cons.IH [of "acc \<union> node_args mn n"]
      by (simp add: Un_assoc)
  qed
qed

lemma ArgumentsCollector_nodes:
  "ArgumentsCollector mn m
     = (if list_ex (kwonly_in_list mn) (nodes_stmts m) then Inl TypeError
        else Inr (\<Union> (node_args mn ` set (nodes_stmts m))))"
  by (simp add: ArgumentsCollector_def visit_nodes_args)

lemma kwonly_in_tuple_not_list: "kwonly_in_tuple node \<Longrightarrow> \<not> kwonly_in_list mn node"
proof (cases node)
  case (FunctionDef name ps body)
  assume "kwonly_in_tuple node"
  with FunctionDef show ?thesis by (cases "kwonly_params ps") simp_all
qed simp_all

lemma parsed_no_list:
  "list_all kwonly_in_tuple ns \<Longrightarrow> \<not> list_ex (kwonly_in_list mn) ns"
  by (induction ns) (simp_all add: kwonly_in_tuple_not_list)

lemma ArgumentsCollector_parsed:
  "parsed_module m \<Longrightarrow>
     ArgumentsCollector mn m = Inr (\<Union> (node_args mn ` set (nodes_stmts m)))"
  unfolding parsed_module_def by (simp add: ArgumentsCollector_nodes parsed_no_list)

lemma missing_comprehension_filter:
  "missing_comprehension E (DataclassFieldCollector ev tn pm) []
     = filter (\<lambda>(k, v). k \<notin> E) (DataclassFieldCollector ev tn pm)"
proof -
  have "distinct (map fst (filter (\<lambda>(k, v). k \<notin> E) (DataclassFieldCollector ev tn pm)))"
    using DataclassFieldCollector_distinct [of ev tn pm] by (simp add: distinct_map_filter)
  then show ?thesis
    using fold_dict_set_fresh [of "[]"] by (simp add: missing_comprehension_fold)
qed

lemma check_missing_parameters_filter:
  "check_missing_parameters ev icm pm mn tn
     = (case ArgumentsCollector mn icm of
          Inl e \<Rightarrow> Inl e
        | Inr existing_args \<Rightarrow>
            Inr (filter (\<lambda>(k, v). k \<notin> existing_args) (DataclassFieldCollector ev tn pm)))"
  by (simp add: check_missing_parameters_def missing_comprehension_filter split: sum.splits)

text \<open>
  Claim C1. \<open>check_missing_parameters\<close> returns exactly the items of the
  declaration's fields, as \<open>DataclassFieldCollector\<close> collects them, whose names
  are not in the existing-argument set that \<open>ArgumentsCollector\<close> returns, in the
  order of the collected fields. The collected fields have distinct names; when the
  declared field names are distinct, the collected fields are the declared fields in
  the order of their declaration, so the result keeps the declaration's order.
  \<open>ArgumentsCollector\<close> returns the union of what the visited definitions named
  \<open>method_name\<close> contribute, unless one of them holds its keyword-only parameters
  in a list, where it raises \<open>TypeError\<close> and \<open>check_missing_parameters\<close> with it;
  for a module as the parser builds it, both return.
\<close>

theorem check_missing_parameters_subtraction:
  "check_missing_parameters ev icm pm mn tn
     = (case ArgumentsCollector mn icm of
          Inl e \<Rightarrow> Inl e
        | Inr existing_args \<Rightarrow>
            Inr (filter (\<lambda>(k, v). k \<notin> existing_args) (DataclassFieldCollector ev tn pm)))
   \<and> distinct (dict_keys (DataclassFieldCollector ev tn pm))
   \<and> (distinct (map fst (declared_fields ev tn pm)) \<longrightarrow>
        DataclassFieldCollector ev tn pm = declared_fields ev tn pm
        \<and> check_missing_parameters ev icm pm mn tn
            = (case ArgumentsCollector mn icm of
                 Inl e \<Rightarrow> Inl e
               | Inr existing_args \<Rightarrow>
                   Inr (filter (\<lambda>(k, v). k \<notin> existing_args) (declared_fields ev tn pm))))
   \<and> ArgumentsCollector mn icm
       = (if list_ex (kwonly_in_list mn) (nodes_stmts icm) then Inl TypeError
          else Inr (\<Union> (node_args mn ` set (nodes_stmts icm))))
   \<and> (parsed_module icm \<longrightarrow>
        ArgumentsCollector mn icm = Inr (\<Union> (node_args mn ` set (nodes_stmts icm)))
        \<and> check_missing_parameters ev icm pm mn tn
            = Inr (filter (\<lambda>(k, v). k \<notin> \<Union> (node_args mn ` set (nodes_stmts icm)))
                     (DataclassFieldCollector ev tn pm)))"
proof (intro conjI impI)
  show f: "check_missing_parameters ev icm pm mn tn
     = (case ArgumentsCollector mn icm of
          Inl e \<Rightarrow> Inl e
        | Inr existing_args \<Rightarrow>
            Inr (filter (\<lambda>(k, v). k \<notin> existing_args) (DataclassFieldCollector ev tn pm)))"
    by (rule check_missing_parameters_filter)
  show "distinct (dict_keys (DataclassFieldCollector ev tn pm))"
    unfolding dict_keys_def by (rule DataclassFieldCollector_distinct)
  show "ArgumentsCollector mn icm
       = (if list_ex (kwonly_in_list mn) (nodes_stmts icm) then Inl TypeError
          else Inr (\<Union> (node_args mn ` set (nodes_stmts icm))))"
    by (rule ArgumentsCollector_nodes)
  {
    assume "distinct (map fst (declared_fields ev tn pm))"
    then show d: "DataclassFieldCollector ev tn pm = declared_fields ev tn pm"
      using fold_dict_set_fresh [of "[]" "declared_fields ev tn pm"]
      by (simp add: DataclassFieldCollector_fold)
    show "check_missing_parameters ev icm pm mn tn
            = (case ArgumentsCollector mn icm of
                 Inl e \<Rightarrow> Inl e
               | Inr existing_args \<Rightarrow>
                   Inr (filter (\<lambda>(k, v). k \<notin> existing_args) (declared_fields ev tn pm)))"
      unfolding f d ..
  }
  {
    assume p: "parsed_module icm"
    show a: "ArgumentsCollector mn icm = Inr (\<Union> (node_args mn ` set (nodes_stmts icm)))"
      by (rule ArgumentsCollector_parsed [OF p])
    show "check_missing_parameters ev icm pm mn tn
            = Inr (filter (\<lambda>(k, v). k \<notin> \<Union> (node_args mn ` set (nodes_stmts icm)))
                     (DataclassFieldCollector ev tn pm))"
      unfolding f a by simp
  }
qed

theorem check_missing_parameters_subtraction_witness:
  "check_missing_parameters (\<lambda>s. s)
     [ClassDef ''InferenceClient''
        (IndentedBlock
           (FunctionDef ''foo''
              \<lparr>params = [\<lparr>param_name = ''self'', annotation = None, default = None\<rparr>,
                         \<lparr>param_name = ''x'', annotation = Some ''int'', default = None\<rparr>],
               kwonly_params = PyTuple [], posonly_params = [], star_arg = None,
               star_kwarg = None\<rparr>
              (SimpleStatementSuite (OtherSmallStatement ''pass'') []))
           [])]
     [ClassDef ''FooParameters''
        (IndentedBlock
           (SimpleStatementLine (AnnAssign (Name ''x'') ''int'') [])
           [SimpleStatementLine (AnnAssign (Name ''y'') ''Optional[str]'') [],
            SimpleStatementLine (Expr (SimpleString '' doc '')) [],
            SimpleStatementLine (AnnAssign (Name ''z'') ''bool'') []])]
     ''foo'' ''FooParameters''
   = Inr [(''y'', \<lparr>type = ''Optional[str]'', docstring = ''doc''\<rparr>),
          (''z'', \<lparr>type = ''bool'', docstring = []\<rparr>)]"
proof -
  let ?icm = "[ClassDef ''InferenceClient''
        (IndentedBlock
           (FunctionDef ''foo''
              \<lparr>params = [\<lparr>param_name = ''self'', annotation = None, default = None\<rparr>,
                         \<lparr>param_name = ''x'', annotation = Some ''int'', default = None\<rparr>],
               kwonly_params = PyTuple [], posonly_params = [], star_arg = None,
               star_kwarg = None\<rparr>
              (SimpleStatementSuite (OtherSmallStatement ''pass'') []))
           [])]"
  let ?pm = "[ClassDef ''FooParameters''
        (IndentedBlock
           (SimpleStatementLine (AnnAssign (Name ''x'') ''int'') [])
           [SimpleStatementLine (AnnAssign (Name ''y'') ''Optional[str]'') [],
            SimpleStatementLine (Expr (SimpleString '' doc '')) [],
            SimpleStatementLine (AnnAssign (Name ''z'') ''bool'') []])]"
  have d: "declared_fields (\<lambda>s. s) ''FooParameters'' ?pm
             = [(''x'', \<lparr>type = ''int'', docstring = []\<rparr>),
                (''y'', \<lparr>type = ''Optional[str]'', docstring = ''doc''\<rparr>),
                (''z'', \<lparr>type = ''bool'', docstring = []\<rparr>)]"
    by (simp add: declared_fields_def extract_docstring_def strip_def lstrip_def rstrip_def
          is_space_def)
  have a: "ArgumentsCollector ''foo'' ?icm = Inr {''x''}"
    by (simp add: ArgumentsCollector_def)
  have "distinct (map fst (declared_fields (\<lambda>s. s) ''FooParameters'' ?pm))"
    unfolding d by simp
  with check_missing_parameters_subtraction [of "\<lambda>s. s" ?icm ?pm "''foo''" "''FooParameters''"]
  have "check_missing_parameters (\<lambda>s. s) ?icm ?pm ''foo'' ''FooParameters''
          = (case ArgumentsCollector ''foo'' ?icm of
               Inl e \<Rightarrow> Inl e
             | Inr existing_args \<Rightarrow>
                 Inr (filter (\<lambda>(k, v). k \<notin> existing_args)
                        (declared_fields (\<lambda>s. s) ''FooParameters'' ?pm)))"
    by blast
  then show ?thesis unfolding d a by simp
qed

subsection \<open>A method without a docstring\<close>

lemma append_missing_eq:
  "append_missing E items acc
     = acc @ map (\<lambda>(n, i). new_param n i) (filter (\<lambda>(n, i). n \<notin> E) items)"
  by (induction E items acc rule: append_missing.induct) simp_all

lemma update_parameters_eq:
  "update_parameters mp ps
     = (case kwonly_params ps of
          PyTuple kw \<Rightarrow>
            Inr (ps\<lparr>kwonly_params :=
                       PyList (kw @ map (\<lambda>(n, i). new_param n i)
                                      (filter (\<lambda>(n, i). n \<notin> set (map param_name (params ps @ kw)))
                                         mp))\<rparr>)
        | PyList kw \<Rightarrow> Inl TypeError)"
  by (cases "kwonly_params ps") (simp_all add: update_parameters_def append_missing_eq)

lemma update_parameters_as_tuples:
  "update_parameters mp (as_tuples_parameters ps)
     = Inr (ps\<lparr>kwonly_params :=
                  PyList (elements (kwonly_params ps)
                          @ map (\<lambda>(n, i). new_param n i)
                              (filter (\<lambda>(n, i). n \<notin> set (map param_name
                                                           (params ps @ elements (kwonly_params ps))))
                                 mp))\<rparr>)"
  by (simp add: update_parameters_eq as_tuples_parameters_def)

lemma update_docstring_no_docstring:
  "\<not> begins_with_docstring body \<Longrightarrow> update_docstring ev mp body = body"
  by (induction ev mp body rule: update_docstring.induct) simp_all

lemma begins_with_docstring_line:
  "begins_with_docstring (IndentedBlock (SimpleStatementLine s ss) ts)
     = (\<exists>v. s = Expr (SimpleString v))"
proof (cases s)
  case (Expr e)
  then show ?thesis by (cases e) simp_all
qed simp_all

lemma AddParameters_stmt_first:
  assumes "AddParameters_stmt ev mn mp t = Inr t'"
  shows "begins_with_docstring (IndentedBlock t' ts') = begins_with_docstring (IndentedBlock t ts)"
proof (cases t)
  case (SimpleStatementLine s ss)
  with assms show ?thesis by (auto simp: begins_with_docstring_line)
next
  case (ClassDef name b)
  with assms show ?thesis by (auto split: sum.splits)
next
  case (FunctionDef name ps b)
  with assms show ?thesis
    by (auto simp: update_parameters_as_tuples split: sum.splits if_splits)
next
  case (OtherCompound kind bodies)
  with assms show ?thesis by (auto split: sum.splits)
qed

lemma AddParameters_suite_begins:
  assumes "AddParameters_suite ev mn mp body = Inr body'"
  shows "begins_with_docstring body' = begins_with_docstring body"
proof (cases body)
  case (IndentedBlock t ts)
  with assms obtain t' ts' where t': "AddParameters_stmt ev mn mp t = Inr t'"
    and b': "body' = IndentedBlock t' ts'"
    by (auto split: sum.splits)
  show ?thesis unfolding b' IndentedBlock by (rule AddParameters_stmt_first [OF t'])
next
  case (SimpleStatementSuite s ss)
  with assms show ?thesis by auto
qed

lemma AddParameters_no_target:
  shows "\<not> list_ex (is_FunctionDef_named mn) (nodes_stmt t) \<Longrightarrow>
           AddParameters_stmt ev mn mp t = Inr (as_tuples_stmt t)"
    and "\<not> list_ex (is_FunctionDef_named mn) (nodes_stmts ts) \<Longrightarrow>
           AddParameters_stmts ev mn mp ts = Inr (as_tuples_stmts ts)"
    and "\<not> list_ex (is_FunctionDef_named mn) (nodes_suite b) \<Longrightarrow>
           AddParameters_suite ev mn mp b = Inr (as_tuples_suite b)"
    and "\<not> list_ex (is_FunctionDef_named mn) (nodes_suites bs) \<Longrightarrow>
           AddParameters_suites ev mn mp bs = Inr (as_tuples_suites bs)"
  by (induction t and ts and b and bs rule: nodes_stmt_nodes_stmts_nodes_suite_nodes_suites.induct)
     simp_all

lemma as_tuples_parameters_tuple:
  "kwonly_params ps = PyTuple kw \<Longrightarrow> as_tuples_parameters ps = ps"
  by (simp add: as_tuples_parameters_def)

lemma as_tuples_parsed:
  shows "list_all kwonly_in_tuple (nodes_stmt t) \<Longrightarrow> as_tuples_stmt t = t"
    and "list_all kwonly_in_tuple (nodes_stmts ts) \<Longrightarrow> as_tuples_stmts ts = ts"
    and "list_all kwonly_in_tuple (nodes_suite b) \<Longrightarrow> as_tuples_suite b = b"
    and "list_all kwonly_in_tuple (nodes_suites bs) \<Longrightarrow> as_tuples_suites bs = bs"
proof (induction t and ts and b and bs rule: nodes_stmt_nodes_stmts_nodes_suite_nodes_suites.induct)
  case (3 name ps body)
  then show ?case
    by (cases "kwonly_params ps") (simp_all add: as_tuples_parameters_def)
qed simp_all

text \<open>
  Claim C10. For a method named \<open>method_name\<close> whose body does not begin with a
  docstring, \<open>leave_FunctionDef\<close> returns the node it is given with the parameters
  that \<open>_update_parameters\<close> returns and with the body as it is.
  \<open>_update_parameters\<close> keeps every parameter and appends to the keyword-only
  parameters, in the order of the missing parameters, one parameter with default
  \<open>None\<close> for each missing name that the positional and keyword-only parameters do
  not have; it raises \<open>TypeError\<close> only when it is given keyword-only parameters in
  a list, which the visit never does. The visit of such a method changes its
  signature in this way and transforms, inside the body, only what the visit does
  to nested definitions: when the body holds no definition named \<open>method_name\<close>,
  the body is the one rebuilt by the visit, which for a body as the parser builds
  it is the body itself.
\<close>

theorem AddParameters_without_docstring:
  "(\<not> begins_with_docstring body \<longrightarrow>
      leave_FunctionDef ev mn mp (FunctionDef mn ps0 body0) (FunctionDef name ps body)
        = (case update_parameters mp ps of
             Inl e \<Rightarrow> Inl e
           | Inr new_params \<Rightarrow> Inr (FunctionDef name new_params body)))
   \<and> update_parameters mp ps
       = (case kwonly_params ps of
            PyTuple kw \<Rightarrow>
              Inr (ps\<lparr>kwonly_params :=
                         PyList (kw @ map (\<lambda>(n, i). new_param n i)
                                        (filter (\<lambda>(n, i). n \<notin> set (map param_name (params ps @ kw)))
                                           mp))\<rparr>)
          | PyList kw \<Rightarrow> Inl TypeError)
   \<and> (\<not> begins_with_docstring body \<longrightarrow>
      AddParameters_stmt ev mn mp (FunctionDef mn ps body)
        = (case AddParameters_suite ev mn mp body of
             Inl e \<Rightarrow> Inl e
           | Inr body' \<Rightarrow>
               Inr (FunctionDef mn
                      (ps\<lparr>kwonly_params :=
                            PyList (elements (kwonly_params ps)
                                    @ map (\<lambda>(n, i). new_param n i)
                                        (filter (\<lambda>(n, i). n \<notin> set (map param_name
                                                   (params ps @ elements (kwonly_params ps))))
                                           mp))\<rparr>)
                      body')))
   \<and> (\<not> begins_with_docstring body
        \<and> \<not> list_ex (is_FunctionDef_named mn) (nodes_suite body) \<longrightarrow>
      AddParameters_stmt ev mn mp (FunctionDef mn ps body)
        = Inr (FunctionDef mn
                 (ps\<lparr>kwonly_params :=
                       PyList (elements (kwonly_params ps)
                               @ map (\<lambda>(n, i). new_param n i)
                                   (filter (\<lambda>(n, i). n \<notin> set (map param_name
                                              (params ps @ elements (kwonly_params ps))))
                                      mp))\<rparr>)
                 (as_tuples_suite body)))
   \<and> (list_all kwonly_in_tuple (nodes_suite body) \<longrightarrow> as_tuples_suite body = body)"
proof (intro conjI impI)
  assume n: "\<not> begins_with_docstring body"
  then show "leave_FunctionDef ev mn mp (FunctionDef mn ps0 body0) (FunctionDef name ps body)
        = (case update_parameters mp ps of
             Inl e \<Rightarrow> Inl e
           | Inr new_params \<Rightarrow> Inr (FunctionDef name new_params body))"
    by (simp add: update_docstring_no_docstring split: sum.splits)
  show "AddParameters_stmt ev mn mp (FunctionDef mn ps body)
        = (case AddParameters_suite ev mn mp body of
             Inl e \<Rightarrow> Inl e
           | Inr body' \<Rightarrow>
               Inr (FunctionDef mn
                      (ps\<lparr>kwonly_params :=
                            PyList (elements (kwonly_params ps)
                                    @ map (\<lambda>(n, i). new_param n i)
                                        (filter (\<lambda>(n, i). n \<notin> set (map param_name
                                                   (params ps @ elements (kwonly_params ps))))
                                           mp))\<rparr>)
                      body'))"
  proof (cases "AddParameters_suite ev mn mp body")
    case (Inl e)
    then show ?thesis by simp
  next
    case (Inr body')
    from AddParameters_suite_begins [OF Inr] n have "\<not> begins_with_docstring body'" by simp
    then show ?thesis
      using Inr by (simp add: update_parameters_as_tuples update_docstring_no_docstring)
  qed
next
  show "update_parameters mp ps
       = (case kwonly_params ps of
            PyTuple kw \<Rightarrow>
              Inr (ps\<lparr>kwonly_params :=
                         PyList (kw @ map (\<lambda>(n, i). new_param n i)
                                        (filter (\<lambda>(n, i). n \<notin> set (map param_name (params ps @ kw)))
                                           mp))\<rparr>)
          | PyList kw \<Rightarrow> Inl TypeError)"
    by (rule update_parameters_eq)
next
  assume a: "\<not> begins_with_docstring body
        \<and> \<not> list_ex (is_FunctionDef_named mn) (nodes_suite body)"
  then have b: "AddParameters_suite ev mn mp body = Inr (as_tuples_suite body)"
    by (simp add: AddParameters_no_target(3))
  from AddParameters_suite_begins [OF b] a
  have "\<not> begins_with_docstring (as_tuples_suite body)" by simp
  then show "AddParameters_stmt ev mn mp (FunctionDef mn ps body)
        = Inr (FunctionDef mn
                 (ps\<lparr>kwonly_params :=
                       PyList (elements (kwonly_params ps)
                               @ map (\<lambda>(n, i). new_param n i)
                                   (filter (\<lambda>(n, i). n \<notin> set (map param_name
                                              (params ps @ elements (kwonly_params ps))))
                                      mp))\<rparr>)
                 (as_tuples_suite body))"
    using b by (simp add: update_parameters_as_tuples update_docstring_no_docstring)
next
  assume "list_all kwonly_in_tuple (nodes_suite body)"
  then show "as_tuples_suite body = body" by (rule as_tuples_parsed(3))
qed

theorem AddParameters_without_docstring_witness:
  "AddParameters_stmt (\<lambda>s. s) ''foo''
     [(''top_k'', \<lparr>type = ''Optional[int]'', docstring = ''How many.''\<rparr>)]
     (FunctionDef ''foo''
        \<lparr>params = [\<lparr>param_name = ''self'', annotation = None, default = None\<rparr>],
         kwonly_params =
           PyTuple [\<lparr>param_name = ''model'', annotation = Some ''str'', default = None\<rparr>],
         posonly_params = [], star_arg = None, star_kwarg = None\<rparr>
        (IndentedBlock (SimpleStatementLine (OtherSmallStatement ''return 1'') []) []))
   = Inr (FunctionDef ''foo''
        \<lparr>params = [\<lparr>param_name = ''self'', annotation = None, default = None\<rparr>],
         kwonly_params =
           PyList [\<lparr>param_name = ''model'', annotation = Some ''str'', default = None\<rparr>,
                   \<lparr>param_name = ''top_k'', annotation = Some ''Optional[int]'',
                     default = Some ''None''\<rparr>],
         posonly_params = [], star_arg = None, star_kwarg = None\<rparr>
        (IndentedBlock (SimpleStatementLine (OtherSmallStatement ''return 1'') []) []))"
  using AddParameters_without_docstring
    [of "IndentedBlock (SimpleStatementLine (OtherSmallStatement ''return 1'') []) []"
        "\<lambda>s. s" "''foo''"
        "[(''top_k'', \<lparr>type = ''Optional[int]'', docstring = ''How many.''\<rparr>)]"
        "\<lparr>params = [\<lparr>param_name = ''self'', annotation = None, default = None\<rparr>],
         kwonly_params =
           PyTuple [\<lparr>param_name = ''model'', annotation = Some ''str'', default = None\<rparr>],
         posonly_params = [], star_arg = None, star_kwarg = None\<rparr>"
        "IndentedBlock (SimpleStatementLine (OtherSmallStatement ''return 1'') []) []"
        "''foo''"
        "\<lparr>params = [\<lparr>param_name = ''self'', annotation = None, default = None\<rparr>],
         kwonly_params =
           PyTuple [\<lparr>param_name = ''model'', annotation = Some ''str'', default = None\<rparr>],
         posonly_params = [], star_arg = None, star_kwarg = None\<rparr>"]
  by (simp add: new_param_def)

subsection \<open>The missing parameters after the rewrite\<close>

lemma node_args_rewritten:
  "node_args mn
     (FunctionDef mn
        (ps\<lparr>kwonly_params :=
              PyList (elements (kwonly_params ps)
                      @ map (\<lambda>(n, i). new_param n i)
                          (filter (\<lambda>(n, i). n \<notin> set (map param_name
                                     (params ps @ elements (kwonly_params ps))))
                             mp))\<rparr>)
        b)
     = node_args mn (FunctionDef mn ps b') \<union> {k \<in> fst ` set mp. k \<noteq> ''self''}"
proof -
  let ?E = "set (map param_name (params ps @ elements (kwonly_params ps)))"
  have "param_name ` set (map (\<lambda>(n, i). new_param n i) (filter (\<lambda>(n, i). n \<notin> ?E) mp))
          = {n \<in> fst ` set mp. n \<notin> ?E}"
    by (force simp: new_param_def image_iff)
  then show ?thesis by (simp add: image_Un) blast
qed

lemma node_args_as_tuples:
  "node_args mn (FunctionDef name (as_tuples_parameters ps) b) = node_args mn (FunctionDef name ps b')"
  by (simp add: as_tuples_parameters_def)

lemma nodes_update_docstring_args:
  "\<Union> (node_args mn ` set (nodes_suite (update_docstring ev mp b)))
     = \<Union> (node_args mn ` set (nodes_suite b))"
  by (induction ev mp b rule: update_docstring.induct) simp_all

lemma AddParameters_stmt_FunctionDef:
  "AddParameters_stmt ev mn mp (FunctionDef name ps body)
     = (case AddParameters_suite ev mn mp body of
          Inl e \<Rightarrow> Inl e
        | Inr body' \<Rightarrow>
            Inr (if name = mn
                 then FunctionDef name
                        (ps\<lparr>kwonly_params :=
                              PyList (elements (kwonly_params ps)
                                      @ map (\<lambda>(n, i). new_param n i)
                                          (filter (\<lambda>(n, i). n \<notin> set (map param_name
                                                     (params ps @ elements (kwonly_params ps))))
                                             mp))\<rparr>)
                        (update_docstring ev mp body')
                 else FunctionDef name (as_tuples_parameters ps) body'))"
  by (simp add: update_parameters_as_tuples split: sum.splits)

lemma AddParameters_returns:
  shows "\<exists>t'. AddParameters_stmt ev mn mp t = Inr t'"
    and "\<exists>ts'. AddParameters_stmts ev mn mp ts = Inr ts'"
    and "\<exists>b'. AddParameters_suite ev mn mp b = Inr b'"
    and "\<exists>bs'. AddParameters_suites ev mn mp bs = Inr bs'"
proof (induction t and ts and b and bs rule: nodes_stmt_nodes_stmts_nodes_suite_nodes_suites.induct)
  case (3 name ps body)
  then show ?case unfolding AddParameters_stmt_FunctionDef by auto
qed auto

lemma AddParameters_args:
  shows "AddParameters_stmt ev mn mp t = Inr t' \<Longrightarrow>
           \<Union> (node_args mn ` set (nodes_stmt t'))
             = \<Union> (node_args mn ` set (nodes_stmt t))
               \<union> (if list_ex (is_FunctionDef_named mn) (nodes_stmt t)
                  then {k \<in> fst ` set mp. k \<noteq> ''self''} else {})"
    and "AddParameters_stmts ev mn mp ts = Inr ts' \<Longrightarrow>
           \<Union> (node_args mn ` set (nodes_stmts ts'))
             = \<Union> (node_args mn ` set (nodes_stmts ts))
               \<union> (if list_ex (is_FunctionDef_named mn) (nodes_stmts ts)
                  then {k \<in> fst ` set mp. k \<noteq> ''self''} else {})"
    and "AddParameters_suite ev mn mp b = Inr b' \<Longrightarrow>
           \<Union> (node_args mn ` set (nodes_suite b'))
             = \<Union> (node_args mn ` set (nodes_suite b))
               \<union> (if list_ex (is_FunctionDef_named mn) (nodes_suite b)
                  then {k \<in> fst ` set mp. k \<noteq> ''self''} else {})"
    and "AddParameters_suites ev mn mp bs = Inr bs' \<Longrightarrow>
           \<Union> (node_args mn ` set (nodes_suites bs'))
             = \<Union> (node_args mn ` set (nodes_suites bs))
               \<union> (if list_ex (is_FunctionDef_named mn) (nodes_suites bs)
                  then {k \<in> fst ` set mp. k \<noteq> ''self''} else {})"
proof (induction t and ts and b and bs arbitrary: t' and ts' and b' and bs'
       rule: nodes_stmt_nodes_stmts_nodes_suite_nodes_suites.induct)
  case (1 s ss)
  then show ?case by auto
next
  case (2 name body)
  from "2.prems" obtain body' where b: "AddParameters_suite ev mn mp body = Inr body'"
    and t': "t' = ClassDef name body'"
    by (auto split: sum.splits)
  from "2.IH" [OF b] show ?case unfolding t' by simp
next
  case (3 name ps body)
  from "3.prems" obtain body' where b: "AddParameters_suite ev mn mp body = Inr body'"
    unfolding AddParameters_stmt_FunctionDef by (auto split: sum.splits)
  note IH = "3.IH" [OF b]
  show ?case
  proof (cases "name = mn")
    case True
    with "3.prems" b have t': "t' = FunctionDef mn
                        (ps\<lparr>kwonly_params :=
                              PyList (elements (kwonly_params ps)
                                      @ map (\<lambda>(n, i). new_param n i)
                                          (filter (\<lambda>(n, i). n \<notin> set (map param_name
                                                     (params ps @ elements (kwonly_params ps))))
                                             mp))\<rparr>)
                        (update_docstring ev mp body')"
      unfolding AddParameters_stmt_FunctionDef by simp
    have "\<Union> (node_args mn ` set (nodes_stmt t'))
            = node_args mn (FunctionDef mn ps body) \<union> {k \<in> fst ` set mp. k \<noteq> ''self''}
              \<union> \<Union> (node_args mn ` set (nodes_suite body'))"
      unfolding t' nodes_stmt.simps
      by (simp only: list.set image_insert Union_insert nodes_update_docstring_args
            node_args_rewritten [where b' = body])
    then show ?thesis using True IH by auto
  next
    case False
    with "3.prems" b have t': "t' = FunctionDef name (as_tuples_parameters ps) body'"
      unfolding AddParameters_stmt_FunctionDef by simp
    show ?thesis unfolding t' using False IH by simp
  qed
next
  case (4 kind bodies)
  from "4.prems" obtain bodies' where b: "AddParameters_suites ev mn mp bodies = Inr bodies'"
    and t': "t' = OtherCompound kind bodies'"
    by (auto split: sum.splits)
  from "4.IH" [OF b] show ?case unfolding t' by simp
next
  case 5
  then show ?case by auto
next
  case (6 t ts)
  from "6.prems" obtain u us where u: "AddParameters_stmt ev mn mp t = Inr u"
    and us: "AddParameters_stmts ev mn mp ts = Inr us" and ts': "ts' = u # us"
    by (auto split: sum.splits)
  from "6.IH"(1) [OF u] "6.IH"(2) [OF us] show ?case unfolding ts' by auto
next
  case (7 t ts)
  from "7.prems" obtain u us where u: "AddParameters_stmt ev mn mp t = Inr u"
    and us: "AddParameters_stmts ev mn mp ts = Inr us" and b': "b' = IndentedBlock u us"
    by (auto split: sum.splits)
  from "7.IH"(1) [OF u] "7.IH"(2) [OF us] show ?case unfolding b' by auto
next
  case (8 s ss)
  then show ?case by auto
next
  case 9
  then show ?case by auto
next
  case (10 b bs)
  from "10.prems" obtain u us where u: "AddParameters_suite ev mn mp b = Inr u"
    and us: "AddParameters_suites ev mn mp bs = Inr us" and bs': "bs' = u # us"
    by (auto split: sum.splits)
  from "10.IH"(1) [OF u] "10.IH"(2) [OF us] show ?case unfolding bs' by auto
qed

lemma as_tuples_args:
  shows "\<Union> (node_args mn ` set (nodes_stmt (as_tuples_stmt t)))
           = \<Union> (node_args mn ` set (nodes_stmt t))"
    and "\<Union> (node_args mn ` set (nodes_stmts (as_tuples_stmts ts)))
           = \<Union> (node_args mn ` set (nodes_stmts ts))"
    and "\<Union> (node_args mn ` set (nodes_suite (as_tuples_suite b)))
           = \<Union> (node_args mn ` set (nodes_suite b))"
    and "\<Union> (node_args mn ` set (nodes_suites (as_tuples_suites bs)))
           = \<Union> (node_args mn ` set (nodes_suites bs))"
  by (induction t and ts and b and bs rule: nodes_stmt_nodes_stmts_nodes_suite_nodes_suites.induct)
     (simp_all add: as_tuples_parameters_def)

lemma as_tuples_is_parsed:
  shows "list_all kwonly_in_tuple (nodes_stmt (as_tuples_stmt t))"
    and "list_all kwonly_in_tuple (nodes_stmts (as_tuples_stmts ts))"
    and "list_all kwonly_in_tuple (nodes_suite (as_tuples_suite b))"
    and "list_all kwonly_in_tuple (nodes_suites (as_tuples_suites bs))"
  by (induction t and ts and b and bs rule: nodes_stmt_nodes_stmts_nodes_suite_nodes_suites.induct)
     (simp_all add: as_tuples_parameters_def)

lemma self_not_in_node_args: "''self'' \<notin> node_args mn node"
  by (cases node) auto

lemma nodes_update_docstring_list:
  "list_ex (kwonly_in_list mn) (nodes_suite (update_docstring ev mp b))
     = list_ex (kwonly_in_list mn) (nodes_suite b)"
  by (induction ev mp b rule: update_docstring.induct) simp_all

lemma AddParameters_kwonly_in_list:
  shows "AddParameters_stmt ev mn mp t = Inr t' \<Longrightarrow>
           list_ex (kwonly_in_list mn) (nodes_stmt t')
             = list_ex (is_FunctionDef_named mn) (nodes_stmt t)"
    and "AddParameters_stmts ev mn mp ts = Inr ts' \<Longrightarrow>
           list_ex (kwonly_in_list mn) (nodes_stmts ts')
             = list_ex (is_FunctionDef_named mn) (nodes_stmts ts)"
    and "AddParameters_suite ev mn mp b = Inr b' \<Longrightarrow>
           list_ex (kwonly_in_list mn) (nodes_suite b')
             = list_ex (is_FunctionDef_named mn) (nodes_suite b)"
    and "AddParameters_suites ev mn mp bs = Inr bs' \<Longrightarrow>
           list_ex (kwonly_in_list mn) (nodes_suites bs')
             = list_ex (is_FunctionDef_named mn) (nodes_suites bs)"
proof (induction t and ts and b and bs arbitrary: t' and ts' and b' and bs'
       rule: nodes_stmt_nodes_stmts_nodes_suite_nodes_suites.induct)
  case (1 s ss)
  then show ?case by auto
next
  case (2 name body)
  from "2.prems" obtain body' where b: "AddParameters_suite ev mn mp body = Inr body'"
    and t': "t' = ClassDef name body'"
    by (auto split: sum.splits)
  from "2.IH" [OF b] show ?case unfolding t' by simp
next
  case (3 name ps body)
  from "3.prems" obtain body' where b: "AddParameters_suite ev mn mp body = Inr body'"
    unfolding AddParameters_stmt_FunctionDef by (auto split: sum.splits)
  show ?case
  proof (cases "name = mn")
    case True
    with "3.prems" b
    have t': "t' = FunctionDef name
                (ps\<lparr>kwonly_params :=
                      PyList (elements (kwonly_params ps)
                              @ map (\<lambda>(n, i). new_param n i)
                                  (filter (\<lambda>(n, i). n \<notin> set (map param_name
                                             (params ps @ elements (kwonly_params ps))))
                                     mp))\<rparr>)
                (update_docstring ev mp body')"
      unfolding AddParameters_stmt_FunctionDef by simp
    show ?thesis unfolding t' using True by simp
  next
    case False
    with "3.prems" b
    have t': "t' = FunctionDef name (as_tuples_parameters ps) body'"
      unfolding AddParameters_stmt_FunctionDef by simp
    show ?thesis unfolding t' using False "3.IH" [OF b] by simp
  qed
next
  case (4 kind bodies)
  from "4.prems" obtain bodies' where b: "AddParameters_suites ev mn mp bodies = Inr bodies'"
    and t': "t' = OtherCompound kind bodies'"
    by (auto split: sum.splits)
  from "4.IH" [OF b] show ?case unfolding t' by simp
next
  case 5
  then show ?case by auto
next
  case (6 t ts)
  from "6.prems" obtain u us where u: "AddParameters_stmt ev mn mp t = Inr u"
    and us: "AddParameters_stmts ev mn mp ts = Inr us" and ts': "ts' = u # us"
    by (auto split: sum.splits)
  from "6.IH"(1) [OF u] "6.IH"(2) [OF us] show ?case unfolding ts' by auto
next
  case (7 t ts)
  from "7.prems" obtain u us where u: "AddParameters_stmt ev mn mp t = Inr u"
    and us: "AddParameters_stmts ev mn mp ts = Inr us" and b': "b' = IndentedBlock u us"
    by (auto split: sum.splits)
  from "7.IH"(1) [OF u] "7.IH"(2) [OF us] show ?case unfolding b' by auto
next
  case (8 s ss)
  then show ?case by auto
next
  case 9
  then show ?case by auto
next
  case (10 b bs)
  from "10.prems" obtain u us where u: "AddParameters_suite ev mn mp b = Inr u"
    and us: "AddParameters_suites ev mn mp bs = Inr us" and bs': "bs' = u # us"
    by (auto split: sum.splits)
  from "10.IH"(1) [OF u] "10.IH"(2) [OF us] show ?case unfolding bs' by auto
qed

text \<open>On the rewritten tree itself, as it is in memory, \<open>ArgumentsCollector\<close> raises
  when the module defines the method: the rewritten definitions hold their
  keyword-only parameters in a list.\<close>

lemma recomputation_in_memory:
  assumes "AddParameters_stmts ev mn mp icm = Inr rewritten"
  shows "check_missing_parameters ev' rewritten pm mn tn
           = (if found_method mn icm then Inl TypeError
              else Inr (filter (\<lambda>(k, v). k \<notin> \<Union> (node_args mn ` set (nodes_stmts rewritten)))
                          (DataclassFieldCollector ev' tn pm)))"
  unfolding check_missing_parameters_filter ArgumentsCollector_nodes found_method_def
    AddParameters_kwonly_in_list(2) [OF assms]
  by simp

lemma recomputation_after_parsing:
  assumes p: "parsed_module icm" and f: "found_method mn icm"
  shows "\<exists>missing rewritten.
           check_missing_parameters ev icm pm mn tn = Inr missing
           \<and> AddParameters_stmts ev mn missing icm = Inr rewritten
           \<and> filter (\<lambda>(k, v). k \<notin> \<Union> (node_args mn ` set (nodes_stmts rewritten)))
                 (DataclassFieldCollector ev tn pm)
               = filter (\<lambda>(k, v). k = ''self'') (DataclassFieldCollector ev tn pm)
           \<and> check_missing_parameters ev (as_tuples_stmts rewritten) pm mn tn
               = Inr (filter (\<lambda>(k, v). k = ''self'') (DataclassFieldCollector ev tn pm))"
proof -
  let ?E = "\<Union> (node_args mn ` set (nodes_stmts icm))"
  let ?D = "DataclassFieldCollector ev tn pm"
  let ?mp = "filter (\<lambda>(k, v). k \<notin> ?E) ?D"
  let ?K = "{k \<in> fst ` set ?mp. k \<noteq> ''self''}"
  have m: "check_missing_parameters ev icm pm mn tn = Inr ?mp"
    unfolding check_missing_parameters_filter ArgumentsCollector_parsed [OF p] by simp
  obtain rewritten where r: "AddParameters_stmts ev mn ?mp icm = Inr rewritten"
    using AddParameters_returns(2) by blast
  have E': "\<Union> (node_args mn ` set (nodes_stmts rewritten)) = ?E \<union> ?K"
    using AddParameters_args(2) [OF r] f unfolding found_method_def by simp
  have self: "''self'' \<notin> ?E" using self_not_in_node_args by blast
  have flt: "filter (\<lambda>(k, v). k \<notin> ?E \<union> ?K) ?D = filter (\<lambda>(k, v). k = ''self'') ?D"
  proof (rule filter_cong [OF refl])
    fix x assume x: "x \<in> set ?D"
    obtain k v where kv: "x = (k, v)" by (cases x)
    have "k \<notin> ?E \<union> ?K \<longleftrightarrow> k = ''self''"
    proof
      assume n: "k \<notin> ?E \<union> ?K"
      then have "(k, v) \<in> set ?mp" using x kv by simp
      then have "k \<in> fst ` set ?mp" by force
      with n show "k = ''self''" by blast
    next
      assume "k = ''self''"
      then show "k \<notin> ?E \<union> ?K" using self by simp
    qed
    then show "(case x of (k, v) \<Rightarrow> k \<notin> ?E \<union> ?K) = (case x of (k, v) \<Rightarrow> k = ''self'')"
      using kv by simp
  qed
  have "parsed_module (as_tuples_stmts rewritten)"
    unfolding parsed_module_def by (rule as_tuples_is_parsed(2))
  then have "ArgumentsCollector mn (as_tuples_stmts rewritten) = Inr (?E \<union> ?K)"
    by (simp add: ArgumentsCollector_parsed as_tuples_args(2) E')
  then have "check_missing_parameters ev (as_tuples_stmts rewritten) pm mn tn
               = Inr (filter (\<lambda>(k, v). k \<notin> ?E \<union> ?K) ?D)"
    unfolding check_missing_parameters_filter by (simp only: sum.case)
  then have "check_missing_parameters ev (as_tuples_stmts rewritten) pm mn tn
               = Inr (filter (\<lambda>(k, v). k = ''self'') ?D)"
    unfolding flt .
  with m r flt show ?thesis unfolding E' [symmetric] by blast
qed

text \<open>
  Claim C2 (amended). Let the module of the callable be as the parser builds it and
  define the method. Then \<open>check_missing_parameters\<close> returns the missing
  parameters and the \<open>AddParameters\<close> rewrite with them returns the rewritten module;
  the fields of the declaration whose names are not among the arguments of the
  rewritten definitions are exactly its fields named \<open>self\<close>; and once the rewritten
  module is written out and parsed again, \<open>check_missing_parameters\<close> returns exactly
  these fields, hence the empty dictionary for a declaration without a field named
  \<open>self\<close>. A module that does not define the method is returned unchanged by the
  rewrite.
\<close>

theorem missing_after_rewrite:
  "(parsed_module icm \<and> found_method mn icm \<longrightarrow>
      (\<exists>missing rewritten.
         check_missing_parameters ev icm pm mn tn = Inr missing
         \<and> AddParameters_stmts ev mn missing icm = Inr rewritten
         \<and> filter (\<lambda>(k, v). k \<notin> \<Union> (node_args mn ` set (nodes_stmts rewritten)))
               (DataclassFieldCollector ev tn pm)
             = filter (\<lambda>(k, v). k = ''self'') (DataclassFieldCollector ev tn pm)
         \<and> check_missing_parameters ev (as_tuples_stmts rewritten) pm mn tn
             = Inr (filter (\<lambda>(k, v). k = ''self'') (DataclassFieldCollector ev tn pm))
         \<and> (''self'' \<notin> set (dict_keys (DataclassFieldCollector ev tn pm)) \<longrightarrow>
              check_missing_parameters ev (as_tuples_stmts rewritten) pm mn tn = Inr [])))
   \<and> (parsed_module icm \<and> \<not> found_method mn icm \<longrightarrow>
        AddParameters_stmts ev mn mp icm = Inr icm)"
proof (intro conjI impI)
  assume a: "parsed_module icm \<and> found_method mn icm"
  from recomputation_after_parsing [of icm mn ev pm tn] a
  obtain missing rewritten where
    m: "check_missing_parameters ev icm pm mn tn = Inr missing"
    and r: "AddParameters_stmts ev mn missing icm = Inr rewritten"
    and s: "filter (\<lambda>(k, v). k \<notin> \<Union> (node_args mn ` set (nodes_stmts rewritten)))
               (DataclassFieldCollector ev tn pm)
             = filter (\<lambda>(k, v). k = ''self'') (DataclassFieldCollector ev tn pm)"
    and c: "check_missing_parameters ev (as_tuples_stmts rewritten) pm mn tn
             = Inr (filter (\<lambda>(k, v). k = ''self'') (DataclassFieldCollector ev tn pm))"
    by blast
  have e: "''self'' \<notin> set (dict_keys (DataclassFieldCollector ev tn pm)) \<longrightarrow>
             check_missing_parameters ev (as_tuples_stmts rewritten) pm mn tn = Inr []"
  proof
    assume "''self'' \<notin> set (dict_keys (DataclassFieldCollector ev tn pm))"
    then have "filter (\<lambda>(k, v). k = ''self'') (DataclassFieldCollector ev tn pm) = []"
      by (force simp: dict_keys_def filter_empty_conv)
    with c show "check_missing_parameters ev (as_tuples_stmts rewritten) pm mn tn = Inr []"
      by simp
  qed
  from m r s c e
  show "\<exists>missing rewritten.
         check_missing_parameters ev icm pm mn tn = Inr missing
         \<and> AddParameters_stmts ev mn missing icm = Inr rewritten
         \<and> filter (\<lambda>(k, v). k \<notin> \<Union> (node_args mn ` set (nodes_stmts rewritten)))
               (DataclassFieldCollector ev tn pm)
             = filter (\<lambda>(k, v). k = ''self'') (DataclassFieldCollector ev tn pm)
         \<and> check_missing_parameters ev (as_tuples_stmts rewritten) pm mn tn
             = Inr (filter (\<lambda>(k, v). k = ''self'') (DataclassFieldCollector ev tn pm))
         \<and> (''self'' \<notin> set (dict_keys (DataclassFieldCollector ev tn pm)) \<longrightarrow>
              check_missing_parameters ev (as_tuples_stmts rewritten) pm mn tn = Inr [])"
    by blast
next
  assume a: "parsed_module icm \<and> \<not> found_method mn icm"
  then have "AddParameters_stmts ev mn mp icm = Inr (as_tuples_stmts icm)"
    unfolding found_method_def by (simp add: AddParameters_no_target(2))
  moreover from a have "as_tuples_stmts icm = icm"
    unfolding parsed_module_def by (simp add: as_tuples_parsed(2))
  ultimately show "AddParameters_stmts ev mn mp icm = Inr icm" by simp
qed

theorem missing_after_rewrite_witness:
  "AddParameters_stmts (\<lambda>s. s) ''foo''
     [(''top_k'', \<lparr>type = ''Optional[int]'', docstring = []\<rparr>)]
     [FunctionDef ''foo''
        \<lparr>params = [\<lparr>param_name = ''self'', annotation = None, default = None\<rparr>],
         kwonly_params = PyTuple [], posonly_params = [], star_arg = None,
         star_kwarg = None\<rparr>
        (SimpleStatementSuite (OtherSmallStatement ''pass'') [])]
   = Inr [FunctionDef ''foo''
            \<lparr>params = [\<lparr>param_name = ''self'', annotation = None, default = None\<rparr>],
             kwonly_params =
               PyList [\<lparr>param_name = ''top_k'', annotation = Some ''Optional[int]'',
                         default = Some ''None''\<rparr>],
             posonly_params = [], star_arg = None, star_kwarg = None\<rparr>
            (SimpleStatementSuite (OtherSmallStatement ''pass'') [])]
   \<and> check_missing_parameters (\<lambda>s. s)
       (as_tuples_stmts
          [FunctionDef ''foo''
             \<lparr>params = [\<lparr>param_name = ''self'', annotation = None, default = None\<rparr>],
              kwonly_params =
                PyList [\<lparr>param_name = ''top_k'', annotation = Some ''Optional[int]'',
                          default = Some ''None''\<rparr>],
              posonly_params = [], star_arg = None, star_kwarg = None\<rparr>
             (SimpleStatementSuite (OtherSmallStatement ''pass'') [])])
       [ClassDef ''FooParameters''
          (IndentedBlock (SimpleStatementLine (AnnAssign (Name ''top_k'') ''Optional[int]'') [])
             [])]
       ''foo'' ''FooParameters''
     = Inr []"
proof -
  let ?icm = "[FunctionDef ''foo''
        \<lparr>params = [\<lparr>param_name = ''self'', annotation = None, default = None\<rparr>],
         kwonly_params = PyTuple [], posonly_params = [], star_arg = None,
         star_kwarg = None\<rparr>
        (SimpleStatementSuite (OtherSmallStatement ''pass'') [])]"
  let ?pm = "[ClassDef ''FooParameters''
          (IndentedBlock (SimpleStatementLine (AnnAssign (Name ''top_k'') ''Optional[int]'') [])
             [])]"
  let ?mp = "[(''top_k'', \<lparr>type = ''Optional[int]'', docstring = []\<rparr>)]"
  have p: "parsed_module ?icm" by (simp add: parsed_module_def)
  have f: "found_method ''foo'' ?icm" by (simp add: found_method_def)
  have d: "''self'' \<notin> set (dict_keys (DataclassFieldCollector (\<lambda>s. s) ''FooParameters'' ?pm))"
    by (simp add: DataclassFieldCollector_def dict_keys_def)
  have m: "check_missing_parameters (\<lambda>s. s) ?icm ?pm ''foo'' ''FooParameters'' = Inr ?mp"
    by (simp add: check_missing_parameters_def DataclassFieldCollector_def
          ArgumentsCollector_def extract_docstring_def)
  have r: "AddParameters_stmts (\<lambda>s. s) ''foo'' ?mp ?icm
             = Inr [FunctionDef ''foo''
                      \<lparr>params = [\<lparr>param_name = ''self'', annotation = None, default = None\<rparr>],
                       kwonly_params =
                         PyList [\<lparr>param_name = ''top_k'', annotation = Some ''Optional[int]'',
                                   default = Some ''None''\<rparr>],
                       posonly_params = [], star_arg = None, star_kwarg = None\<rparr>
                      (SimpleStatementSuite (OtherSmallStatement ''pass'') [])]"
    by (simp add: update_parameters_def as_tuples_parameters_def new_param_def)
  from missing_after_rewrite [of ?icm "''foo''" "\<lambda>s. s" ?pm "''FooParameters''" "[]"] p f d
  obtain missing rewritten where
    "check_missing_parameters (\<lambda>s. s) ?icm ?pm ''foo'' ''FooParameters'' = Inr missing"
    and "AddParameters_stmts (\<lambda>s. s) ''foo'' missing ?icm = Inr rewritten"
    and "check_missing_parameters (\<lambda>s. s) (as_tuples_stmts rewritten) ?pm ''foo''
           ''FooParameters'' = Inr []"
    by blast
  with m r show ?thesis by simp
qed

text \<open>
  The claim as stated fails twice. For a declaration with a field named \<open>self\<close> the
  field is missing before the rewrite and still missing after it, also once the
  rewritten module is parsed again: \<open>ArgumentsCollector\<close> leaves \<open>self\<close> out of the
  existing arguments and \<open>_update_parameters\<close> never adds it. And on the rewritten
  tree as it is in memory the recomputation raises \<open>TypeError\<close>, the rewritten
  definition holding its keyword-only parameters in a list.
\<close>

theorem missing_after_rewrite_counterexample:
  "check_missing_parameters (\<lambda>s. s)
     [FunctionDef ''foo''
        \<lparr>params = [\<lparr>param_name = ''self'', annotation = None, default = None\<rparr>],
         kwonly_params = PyTuple [], posonly_params = [], star_arg = None,
         star_kwarg = None\<rparr>
        (SimpleStatementSuite (OtherSmallStatement ''pass'') [])]
     [ClassDef ''FooParameters''
        (IndentedBlock (SimpleStatementLine (AnnAssign (Name ''self'') ''Optional[str]'') [])
           [])]
     ''foo'' ''FooParameters''
   = Inr [(''self'', \<lparr>type = ''Optional[str]'', docstring = []\<rparr>)]
   \<and> AddParameters_stmts (\<lambda>s. s) ''foo''
       [(''self'', \<lparr>type = ''Optional[str]'', docstring = []\<rparr>)]
       [FunctionDef ''foo''
          \<lparr>params = [\<lparr>param_name = ''self'', annotation = None, default = None\<rparr>],
           kwonly_params = PyTuple [], posonly_params = [], star_arg = None,
           star_kwarg = None\<rparr>
          (SimpleStatementSuite (OtherSmallStatement ''pass'') [])]
     = Inr [FunctionDef ''foo''
              \<lparr>params = [\<lparr>param_name = ''self'', annotation = None, default = None\<rparr>],
               kwonly_params = PyList [], posonly_params = [], star_arg = None,
               star_kwarg = None\<rparr>
              (SimpleStatementSuite (OtherSmallStatement ''pass'') [])]
   \<and> check_missing_parameters (\<lambda>s. s)
       [FunctionDef ''foo''
          \<lparr>params = [\<lparr>param_name = ''self'', annotation = None, default = None\<rparr>],
           kwonly_params = PyList [], posonly_params = [], star_arg = None,
           star_kwarg = None\<rparr>
          (SimpleStatementSuite (OtherSmallStatement ''pass'') [])]
       [ClassDef ''FooParameters''
          (IndentedBlock (SimpleStatementLine (AnnAssign (Name ''self'') ''Optional[str]'') [])
             [])]
       ''foo'' ''FooParameters''
     = Inl TypeError
   \<and> check_missing_parameters (\<lambda>s. s)
       (as_tuples_stmts
          [FunctionDef ''foo''
             \<lparr>params = [\<lparr>param_name = ''self'', annotation = None, default = None\<rparr>],
              kwonly_params = PyList [], posonly_params = [], star_arg = None,
              star_kwarg = None\<rparr>
             (SimpleStatementSuite (OtherSmallStatement ''pass'') [])])
       [ClassDef ''FooParameters''
          (IndentedBlock (SimpleStatementLine (AnnAssign (Name ''self'') ''Optional[str]'') [])
             [])]
       ''foo'' ''FooParameters''
     = Inr [(''self'', \<lparr>type = ''Optional[str]'', docstring = []\<rparr>)]"
  by (simp add: check_missing_parameters_def DataclassFieldCollector_def ArgumentsCollector_def
        update_parameters_def as_tuples_parameters_def extract_docstring_def)

end
